theory Spec2Isabelle
  imports Main
begin

section \<open>Data model of \<open>pkg/haproxy/instance.go\<close>\<close>

text \<open>
  The options of an instance, field by field as the Go struct \<open>InstanceOptions\<close>.
  A Go \<open>string\<close> is a sequence of bytes, and so is a HOL \<open>string\<close>.
\<close>

record InstanceOptions =
  MaxOldConfigFiles :: int
  HAProxyCmd :: string
  HAProxyConfigFile :: string
  ReloadCmd :: string
  ReloadStrategy :: string
  SortBackends :: bool
  ValidateConfig :: bool

text \<open>
  A Go \<open>error\<close> is an interface whose only observable is its message; \<open>nil\<close> is
  \<open>None\<close> of \<open>error option\<close>.
\<close>

datatype error = ErrorString string

fun Error :: "error \<Rightarrow> string" where
  "Error (ErrorString s) = s"

text \<open>The operands of a logger call, kept unformatted next to the format string.\<close>

datatype logarg = ArgError error | ArgInt int | ArgString string

text \<open>
  The history of one run: every call that leaves \<open>instance.go\<close> (logger, timer, the
  configuration object, the dynamic updater, the template writer, \<open>os/exec\<close>) with its
  arguments and its result, and every entry into the private methods \<open>clearConfig\<close>,
  \<open>check\<close> and \<open>reload\<close>, in program order. \<open>'c\<close> is the type of references to
  configuration objects (the Go interface value \<open>Config\<close>), \<open>'b\<close> that of references to
  backends.
\<close>

datatype ('c, 'b) event =
    LogInfo string "logarg list"
  | LogInfoV int string "logarg list"
  | LogWarn string "logarg list"
  | LogError string "logarg list"
  | TimerTick string
  | CallCreateConfig string 'c
  | CallBuildFrontendGroup 'c "error option"
  | CallBuildBackendMaps 'c "error option"
  | CallEquals 'c "'c option" bool
  | CallDynUpdate "'c option" 'c bool int
  | CallBackends 'c "'b list"
  | CallSortEndpoints 'b
  | CallTemplatesWrite 'c "error option"
  | CallClearConfig
  | CallCheck
  | CallReload
  | CallExec string "string list" string "error option"

text \<open>
  The collaborators of the instance are not part of \<open>instance.go\<close>; they are parameters
  of the model. Each is a function of the state \<open>'w\<close> of everything outside the instance
  (the configuration objects behind the references, the files on disk, the running proxy)
  and returns the new outside state with its result:
  \<^item> \<open>createConfig mapsDir\<close>: the constructor called by \<open>Config()\<close>;
  \<^item> \<open>BuildFrontendGroup c\<close>, \<open>BuildBackendMaps c\<close>, \<open>Equals c other\<close>, \<open>Backends c\<close>:
    the methods of the configuration object \<open>c\<close>; \<open>SortEndpoints b\<close> that of a backend;
  \<^item> \<open>dynUpdate old cur\<close>: \<open>newDynUpdater()\<close> on the two slots followed by
    \<open>updater.update()\<close>; the result is the pair of \<open>updated\<close> and \<open>updater.cmdCnt\<close>
    (a Go \<open>int\<close>, only compared with zero here);
  \<^item> \<open>templatesWrite c\<close>: \<open>templates.Write(c)\<close>;
  \<^item> \<open>CombinedOutput name args\<close>: \<open>exec.Command(name, args...).CombinedOutput()\<close>, the
    combined standard output and standard error of the subprocess and an error that is
    \<open>nil\<close> exactly when the command ran and exited with status zero.
\<close>

record ('c, 'b, 'w) env =
  createConfig :: "string \<Rightarrow> 'w \<Rightarrow> 'c \<times> 'w"
  BuildFrontendGroup :: "'c \<Rightarrow> 'w \<Rightarrow> error option \<times> 'w"
  BuildBackendMaps :: "'c \<Rightarrow> 'w \<Rightarrow> error option \<times> 'w"
  Equals :: "'c \<Rightarrow> 'c option \<Rightarrow> 'w \<Rightarrow> bool \<times> 'w"
  Backends :: "'c \<Rightarrow> 'w \<Rightarrow> 'b list \<times> 'w"
  SortEndpoints :: "'b \<Rightarrow> 'w \<Rightarrow> 'w"
  dynUpdate :: "'c option \<Rightarrow> 'c \<Rightarrow> 'w \<Rightarrow> (bool \<times> int) \<times> 'w"
  templatesWrite :: "'c \<Rightarrow> 'w \<Rightarrow> error option \<times> 'w"
  CombinedOutput :: "string \<Rightarrow> string list \<Rightarrow> 'w \<Rightarrow> (string \<times> error option) \<times> 'w"

text \<open>
  The struct \<open>instance\<close>: its options, \<open>mapsDir\<close> and the two slots \<open>oldConfig\<close> and
  \<open>curConfig\<close> (\<open>None\<close> is the \<open>nil\<close> interface value). The collaborator fields
  (\<open>logger\<close>, \<open>bindUtils\<close>, \<open>templates\<close>, \<open>mapsTemplate\<close>) are the \<open>env\<close> above. The
  state that the methods thread through is the struct together with the history \<open>trace\<close>
  and the outside state \<open>world\<close>.
\<close>

record ('c, 'b, 'w) instance_state =
  options :: InstanceOptions
  mapsDir :: string
  oldConfig :: "'c option"
  curConfig :: "'c option"
  trace :: "('c, 'b) event list"
  world :: 'w

section \<open>Calls\<close>

definition emit :: "('c, 'b) event \<Rightarrow> ('c, 'b, 'w) instance_state \<Rightarrow> ('c, 'b, 'w) instance_state" where
  "emit e i = i\<lparr>trace := trace i @ [e]\<rparr>"

text \<open>A call of a collaborator: run it on the outside state and record it with its result.\<close>

definition call ::
  "('w \<Rightarrow> 'r \<times> 'w) \<Rightarrow> ('r \<Rightarrow> ('c, 'b) event) \<Rightarrow> ('c, 'b, 'w) instance_state
     \<Rightarrow> 'r \<times> ('c, 'b, 'w) instance_state" where
  "call f ev i = (case f (world i) of (r, w) \<Rightarrow> (r, emit (ev r) (i\<lparr>world := w\<rparr>)))"

definition logger_Info :: "string \<Rightarrow> logarg list \<Rightarrow> ('c, 'b, 'w) instance_state \<Rightarrow> ('c, 'b, 'w) instance_state" where
  "logger_Info fmt args = emit (LogInfo fmt args)"

definition logger_InfoV :: "int \<Rightarrow> string \<Rightarrow> logarg list \<Rightarrow> ('c, 'b, 'w) instance_state \<Rightarrow> ('c, 'b, 'w) instance_state" where
  "logger_InfoV v fmt args = emit (LogInfoV v fmt args)"

definition logger_Warn :: "string \<Rightarrow> logarg list \<Rightarrow> ('c, 'b, 'w) instance_state \<Rightarrow> ('c, 'b, 'w) instance_state" where
  "logger_Warn fmt args = emit (LogWarn fmt args)"

definition logger_Error :: "string \<Rightarrow> logarg list \<Rightarrow> ('c, 'b, 'w) instance_state \<Rightarrow> ('c, 'b, 'w) instance_state" where
  "logger_Error fmt args = emit (LogError fmt args)"

definition timer_Tick :: "string \<Rightarrow> ('c, 'b, 'w) instance_state \<Rightarrow> ('c, 'b, 'w) instance_state" where
  "timer_Tick label = emit (TimerTick label)"

section \<open>\<open>fmt.Errorf\<close> with a format string and no operands\<close>

text \<open>
  \<open>check\<close> calls \<open>fmt.Errorf(outstr)\<close>: the text is the \<^emph>\<open>format\<close> and the operand list
  is empty. What follows is the formatting loop of Go's package \<open>fmt\<close> (\<open>doPrintf\<close> in
  \<open>print.go\<close>) specialised to \<open>len(a) = 0\<close>. The Go code walks the format with an index
  \<open>i\<close>; here the unread part \<open>format[i:]\<close> is passed along instead. With no operand the
  flags, the width and the precision change nothing that is printed, so only what they
  consume is kept, together with \<open>p.goodArgNum\<close> and \<open>afterIndex\<close>.
\<close>

definition byte :: "char \<Rightarrow> nat" where
  "byte c = of_char c"

definition isDigit :: "char \<Rightarrow> bool" where
  "isDigit c \<longleftrightarrow> byte CHR ''0'' \<le> byte c \<and> byte c \<le> byte CHR ''9''"

text \<open>\<open>tooLarge(x)\<close>: \<open>x > 1e6 || x < -1e6\<close>; the number read so far is never negative.\<close>

definition tooLarge :: "nat \<Rightarrow> bool" where
  "tooLarge x \<longleftrightarrow> x > 1000000"

text \<open>
  \<open>parsenum(s, start, end)\<close> on the segment \<open>s[start:end]\<close>: the number, whether there
  was one, and the unread rest of the segment (\<open>s[newi:end]\<close>). On overflow Go returns
  \<open>newi = end\<close>: the rest is empty.
\<close>

fun parsenum_loop :: "string \<Rightarrow> nat \<Rightarrow> bool \<Rightarrow> nat \<times> bool \<times> string" where
  "parsenum_loop [] num isnum = (num, isnum, [])"
| "parsenum_loop (c # cs) num isnum =
     (if isDigit c then
        (if tooLarge num then (0, False, [])
         else parsenum_loop cs (num * 10 + (byte c - byte CHR ''0'')) True)
      else (num, isnum, c # cs))"

definition parsenum :: "string \<Rightarrow> nat \<times> bool \<times> string" where
  "parsenum seg = (if seg = [] then (0, False, []) else parsenum_loop seg 0 False)"

text \<open>
  \<open>parseArgNumber(format)\<close>, called on text that starts with \<open>[\<close>: the index, the number
  of bytes of the bracketed part, and whether it was well formed.
\<close>

definition parseArgNumber :: "string \<Rightarrow> int \<times> nat \<times> bool" where
  "parseArgNumber format =
     (if length format < 3 then (0, 1, False)
      else
        let seg = takeWhile (\<lambda>c. c \<noteq> CHR '']'') (tl format) in
        if length seg = length (tl format) then (0, 1, False)
        else
          let i = 1 + length seg in
          (case parsenum seg of (width, ok, rest) \<Rightarrow>
             if \<not> ok \<or> rest \<noteq> [] then (0, i + 1, False)
             else (int width - 1, i + 1, True)))"

text \<open>
  \<open>argNumber(argNum, format, i, numArgs)\<close> with \<open>numArgs = 0\<close>: the unread format, the
  flag \<open>found\<close> (assigned to \<open>afterIndex\<close>) and the new \<open>p.goodArgNum\<close>. No index is in
  range when there is no operand, so \<open>argNum\<close> stays \<open>0\<close> throughout.
\<close>

definition argNumber :: "string \<Rightarrow> bool \<Rightarrow> string \<times> bool \<times> bool" where
  "argNumber format goodArgNum =
     (if format = [] \<or> hd format \<noteq> CHR ''['' then (format, False, goodArgNum)
      else
        (case parseArgNumber format of (index, wid, ok) \<Rightarrow>
           if ok \<and> 0 \<le> index \<and> index < 0 then (drop wid format, True, goodArgNum)
           else (drop wid format, ok, False)))"

text \<open>
  The verb: \<open>utf8.DecodeRuneInString\<close> followed by \<open>WriteRune\<close>. The result is the bytes
  that \<open>WriteRune\<close> prints for the decoded rune and the number of bytes decoded. Go's
  decoder accepts only the shortest encoding of a code point that is no surrogate and at
  most \<open>U+10FFFF\<close>, so a rune that decodes is printed as the bytes it was read from; any
  other first byte decodes, with size 1, to \<open>utf8.RuneError\<close>, printed as \<open>EF BF BD\<close>.
\<close>

definition RuneError :: string where
  "RuneError = [char_of (0xEF::nat), char_of (0xBF::nat), char_of (0xBD::nat)]"

definition inRange :: "nat \<Rightarrow> nat \<Rightarrow> char \<Rightarrow> bool" where
  "inRange lo hi c \<longleftrightarrow> lo \<le> byte c \<and> byte c \<le> hi"

definition DecodeRuneInString :: "string \<Rightarrow> string \<times> nat" where
  "DecodeRuneInString s =
     (case s of
        [] \<Rightarrow> (RuneError, 0)
      | s0 # t \<Rightarrow>
          let b = byte s0 in
          if b < 0x80 then ([s0], 1)
          else if b < 0xC2 \<or> 0xF4 < b then (RuneError, 1)
          else
            let sz = (if b < 0xE0 then 2 else if b < 0xF0 then 3 else 4 :: nat);
                lo = (if b = 0xE0 then 0xA0 else if b = 0xF0 then 0x90 else 0x80);
                hi = (if b = 0xED then 0x9F else if b = 0xF4 then 0x8F else 0xBF)
            in
              if length s < sz then (RuneError, 1)
              else if \<not> inRange lo hi (s ! 1) then (RuneError, 1)
              else if sz \<le> 2 then (take 2 s, 2)
              else if \<not> inRange 0x80 0xBF (s ! 2) then (RuneError, 1)
              else if sz \<le> 3 then (take 3 s, 3)
              else if \<not> inRange 0x80 0xBF (s ! 3) then (RuneError, 1)
              else (take 4 s, 4))"

definition isFlag :: "char \<Rightarrow> bool" where
  "isFlag c \<longleftrightarrow> c \<in> set ''#0+- ''"

text \<open>
  One pass of the loop body after the \<open>%\<close>: flags, argument index, width, precision,
  argument index, verb. The result is what is printed and the unread format. The width
  test is \<open>i < end && format[i] == '*'\<close>; the precision test is
  \<open>i+1 < end && format[i] == '.'\<close>, so a \<open>.\<close> that is the last byte of the format is
  no precision: it is left for the verb.
\<close>

definition width_part :: "string \<Rightarrow> bool \<Rightarrow> bool \<Rightarrow> string \<times> string \<times> bool \<times> bool" where
  "width_part format afterIndex goodArgNum =
     (if format \<noteq> [] \<and> hd format = CHR ''*'' then
        (''%!(BADWIDTH)'', tl format, False, goodArgNum)
      else
        (case parsenum format of (wid, widPresent, rest) \<Rightarrow>
           ([], rest, afterIndex, (if afterIndex \<and> widPresent then False else goodArgNum))))"

definition prec_part :: "string \<Rightarrow> bool \<Rightarrow> bool \<Rightarrow> string \<times> string \<times> bool \<times> bool" where
  "prec_part format afterIndex goodArgNum =
     (if length format > 1 \<and> hd format = CHR ''.'' then
        (case argNumber (tl format) (if afterIndex then False else goodArgNum) of
           (format1, afterIndex1, goodArgNum1) \<Rightarrow>
             if format1 \<noteq> [] \<and> hd format1 = CHR ''*'' then
               (''%!(BADPREC)'', tl format1, False, goodArgNum1)
             else
               (case parsenum format1 of (prec, precPresent, rest) \<Rightarrow>
                  ([], rest, afterIndex1, goodArgNum1)))
      else ([], format, afterIndex, goodArgNum))"

definition verb_part :: "string \<Rightarrow> bool \<Rightarrow> string \<times> string" where
  "verb_part format goodArgNum =
     (if format = [] then (''%!(NOVERB)'', [])
      else
        (case (if byte (hd format) \<ge> 0x80 then DecodeRuneInString format
               else ([hd format], 1)) of
           (verb, n) \<Rightarrow>
             if verb = ''%'' then (''%'', drop n format)
             else if \<not> goodArgNum then (''%!'' @ verb @ ''(BADINDEX)'', drop n format)
             else (''%!'' @ verb @ ''(MISSING)'', drop n format)))"

definition one_verb :: "string \<Rightarrow> string \<times> string" where
  "one_verb format =
     (case argNumber (dropWhile isFlag format) True of
        (format1, afterIndex1, good1) \<Rightarrow>
     (case width_part format1 afterIndex1 good1 of
        (out2, format2, afterIndex2, good2) \<Rightarrow>
     (case prec_part format2 afterIndex2 good2 of
        (out3, format3, afterIndex3, good3) \<Rightarrow>
     (case (if \<not> afterIndex3 then argNumber format3 good3 else (format3, afterIndex3, good3)) of
        (format4, afterIndex4, good4) \<Rightarrow>
     (case verb_part format4 good4 of
        (out5, format5) \<Rightarrow> (out2 @ out3 @ out5, format5))))))"

text \<open>Every part of the pass hands back a suffix of the format it was given.\<close>

lemma parsenum_loop_length: "length (snd (snd (parsenum_loop s n b))) \<le> length s"
  by (induction s n b rule: parsenum_loop.induct) auto

lemma parsenum_length: "parsenum s = (n, b, r) \<Longrightarrow> length r \<le> length s"
  using parsenum_loop_length [of s 0 False] by (auto simp: parsenum_def split: if_splits)

lemma argNumber_length: "argNumber s g = (r, a, g') \<Longrightarrow> length r \<le> length s"
  by (auto simp: argNumber_def split: if_splits prod.splits)

lemma width_part_length: "width_part s a g = (out, r, a', g') \<Longrightarrow> length r \<le> length s"
  by (auto simp: width_part_def split: if_splits prod.splits dest: parsenum_length)

lemma prec_part_length: "prec_part s a g = (out, r, a', g') \<Longrightarrow> length r \<le> length s"
  by (auto simp: prec_part_def split: if_splits prod.splits
      dest!: parsenum_length argNumber_length)

lemma verb_part_length: "verb_part s g = (out, r) \<Longrightarrow> length r \<le> length s"
  by (auto simp: verb_part_def split: if_splits prod.splits)

lemma one_verb_length:
  assumes h: "one_verb s = (out, r)"
  shows "length r \<le> length s"
proof -
  have "length (dropWhile isFlag s) \<le> length s" by (rule length_dropWhile_le)
  with h show ?thesis
    unfolding one_verb_def
    by (auto split: prod.splits if_splits
        dest!: argNumber_length width_part_length prec_part_length verb_part_length)
qed

lemma one_verb_decreases:
  assumes pc: "CHR ''%'' \<in> set format"
    and ov: "(out, y) = one_verb (tl (dropWhile (\<lambda>c. c \<noteq> CHR ''%'') format))"
  shows "length y < length format"
proof -
  let ?rest = "dropWhile (\<lambda>c. c \<noteq> CHR ''%'') format"
  have ne: "?rest \<noteq> []" using pc by auto
  have "length y \<le> length (tl ?rest)" using ov one_verb_length [of "tl ?rest" out y] by simp
  moreover have "length (tl ?rest) < length ?rest" using ne by (cases ?rest) auto
  moreover have "length ?rest \<le> length format" by (rule length_dropWhile_le)
  ultimately show ?thesis by linarith
qed

text \<open>
  The loop of \<open>doPrintf\<close>: copy the text up to the next \<open>%\<close>, stop at the end of the
  format, otherwise step over the \<open>%\<close> and process one verb. After \<open>%!(NOVERB)\<close> Go
  leaves the loop with \<open>break\<close>; the format is used up there, so the next pass ends it
  as well. The final test for extra operands needs an operand and never fires.
\<close>

function doPrintf :: "string \<Rightarrow> string" where
  "doPrintf format =
     (let lit = takeWhile (\<lambda>c. c \<noteq> CHR ''%'') format;
          rest = dropWhile (\<lambda>c. c \<noteq> CHR ''%'') format
      in if rest = [] then lit
         else (case one_verb (tl rest) of (out, format') \<Rightarrow> lit @ out @ doPrintf format'))"
  by pat_completeness auto
termination
  apply (relation "measure length")
   apply simp
  apply (simp add: one_verb_decreases)
  done

declare doPrintf.simps [simp del]

text \<open>\<open>fmt.Errorf(format)\<close>: the error whose message is the formatted text.\<close>

definition Errorf :: "string \<Rightarrow> error" where
  "Errorf format = ErrorString (doPrintf format)"

section \<open>The methods of the instance\<close>

text \<open>\<open>clearConfig\<close> (lines 210-214): rotate \<open>curConfig\<close> into \<open>oldConfig\<close>.\<close>

definition clearConfig :: "('c, 'b, 'w) instance_state \<Rightarrow> ('c, 'b, 'w) instance_state" where
  "clearConfig i = (emit CallClearConfig i)\<lparr>oldConfig := curConfig i, curConfig := None\<rparr>"

text \<open>\<open>Config\<close> (lines 101-110).\<close>

definition Config ::
  "('c, 'b, 'w) env \<Rightarrow> ('c, 'b, 'w) instance_state \<Rightarrow> 'c \<times> ('c, 'b, 'w) instance_state" where
  "Config E i =
     (case curConfig i of
        None \<Rightarrow>
          (case call (createConfig E (mapsDir i)) (CallCreateConfig (mapsDir i)) i of
             (config, i1) \<Rightarrow> (config, i1\<lparr>curConfig := Some config\<rparr>))
      | Some c \<Rightarrow> (c, i))"

text \<open>\<open>check\<close> (lines 181-192).\<close>

definition check ::
  "('c, 'b, 'w) env \<Rightarrow> ('c, 'b, 'w) instance_state
     \<Rightarrow> error option \<times> ('c, 'b, 'w) instance_state" where
  "check E i0 =
     (let i = emit CallCheck i0 in
      if HAProxyCmd (options i) = [] then
        (None, logger_Info ''(test) check was skipped'' [] i)
      else
        (let args = [''-c'', ''-f'', HAProxyConfigFile (options i)] in
         case call (CombinedOutput E (HAProxyCmd (options i)) args)
                (\<lambda>(out, err). CallExec (HAProxyCmd (options i)) args out err) i of
           ((out, err), i1) \<Rightarrow>
             let outstr = out in
             if err \<noteq> None then (Some (Errorf outstr), i1)
             else (None, i1)))"

text \<open>\<open>reload\<close> (lines 194-208).\<close>

definition reload ::
  "('c, 'b, 'w) env \<Rightarrow> ('c, 'b, 'w) instance_state
     \<Rightarrow> error option \<times> ('c, 'b, 'w) instance_state" where
  "reload E i0 =
     (let i = emit CallReload i0 in
      if ReloadCmd (options i) = [] then
        (None, logger_Info ''(test) reload was skipped'' [] i)
      else
        (let args = [ReloadStrategy (options i), HAProxyConfigFile (options i)] in
         case call (CombinedOutput E (ReloadCmd (options i)) args)
                (\<lambda>(out, err). CallExec (ReloadCmd (options i)) args out err) i of
           ((out, err), i1) \<Rightarrow>
             let outstr = out;
                 i2 = (if length outstr > 0
                       then logger_Warn ''output from haproxy:\<newline>%v'' [ArgString outstr] i1
                       else i1)
             in if err \<noteq> None then (err, i2) else (None, i2)))"

text \<open>
  The loop of lines 142-144 over \<open>i.curConfig.Backends()\<close>: \<open>SortEndpoints\<close> on each
  backend, in the order of the slice.
\<close>

definition sortBackends ::
  "('c, 'b, 'w) env \<Rightarrow> 'c \<Rightarrow> ('c, 'b, 'w) instance_state \<Rightarrow> ('c, 'b, 'w) instance_state" where
  "sortBackends E cur i =
     (case call (Backends E cur) (CallBackends cur) i of
        (backends, i1) \<Rightarrow>
          fold (\<lambda>backend j. emit (CallSortEndpoints backend)
                              (j\<lparr>world := SortEndpoints E backend (world j)\<rparr>))
               backends i1)"

text \<open>
  \<open>Update\<close> (lines 112-179) in three parts. \<open>Update_final\<close> is lines 159-178, what runs
  after the rotation of line 158: the report of a live update, or the reload. The timer is
  the caller's argument; its \<open>Tick\<close> is recorded in the history.
\<close>

definition Update_final ::
  "('c, 'b, 'w) env \<Rightarrow> bool \<Rightarrow> int \<Rightarrow> ('c, 'b, 'w) instance_state \<Rightarrow> ('c, 'b, 'w) instance_state" where
  "Update_final E updated cmdCnt i =
     (if updated then
        (if cmdCnt > 0 then
           (let i2 =
              (if ValidateConfig (options i) then
                 (case check E i of
                    (err, i1) \<Rightarrow>
                      timer_Tick ''validate''
                        (case err of
                           Some e \<Rightarrow> logger_Error ''error validating config file:\<newline>%v'' [ArgError e] i1
                         | None \<Rightarrow> i1))
               else i)
            in logger_Info ''HAProxy updated without needing to reload. Commands sent: %d''
                 [ArgInt cmdCnt] i2)
         else logger_Info ''old and new configurations match'' [] i)
      else
        (case reload E i of
           (Some err, i1) \<Rightarrow> logger_Error ''error reloading server:\<newline>%v'' [ArgError err] i1
         | (None, i1) \<Rightarrow> logger_Info ''HAProxy successfully reloaded'' [] (timer_Tick ''reload'' i1)))"

text \<open>
  \<open>Update_patch\<close> is lines 139-158 followed by \<open>Update_final\<close>: the dynamic update, the
  optional sort, the gated write of the templates, and the rotation. \<open>cur\<close> is the
  reference read from \<open>i.curConfig\<close>, which no call before line 158 assigns.
\<close>

definition Update_patch ::
  "('c, 'b, 'w) env \<Rightarrow> 'c \<Rightarrow> ('c, 'b, 'w) instance_state \<Rightarrow> ('c, 'b, 'w) instance_state" where
  "Update_patch E cur i =
     (case call (dynUpdate E (oldConfig i) cur)
             (\<lambda>(updated, cmdCnt). CallDynUpdate (oldConfig i) cur updated cmdCnt) i of
        ((updated, cmdCnt), i1) \<Rightarrow>
          let i2 = (if SortBackends (options i1) then sortBackends E cur i1 else i1) in
          if \<not> updated \<or> cmdCnt > 0 then
            (case call (templatesWrite E cur) (CallTemplatesWrite cur) i2 of
               (err, i3) \<Rightarrow>
                 let i4 = timer_Tick ''writeTmpl'' i3 in
                 (case err of
                    Some e \<Rightarrow>
                      clearConfig (logger_Error ''error writing configuration: %v'' [ArgError e] i4)
                  | None \<Rightarrow> Update_final E updated cmdCnt (clearConfig i4)))
          else Update_final E updated cmdCnt (clearConfig i2))"

definition Update ::
  "('c, 'b, 'w) env \<Rightarrow> ('c, 'b, 'w) instance_state \<Rightarrow> ('c, 'b, 'w) instance_state" where
  "Update E i =
     (case curConfig i of
        None \<Rightarrow> logger_Info ''new configuration is empty'' [] i
      | Some cur \<Rightarrow>
          (case call (BuildFrontendGroup E cur) (CallBuildFrontendGroup cur) i of
             (Some err, i1) \<Rightarrow>
               clearConfig (logger_Error ''error building configuration group: %v'' [ArgError err] i1)
           | (None, i1) \<Rightarrow>
          (case call (BuildBackendMaps E cur) (CallBuildBackendMaps cur) i1 of
             (Some err, i2) \<Rightarrow>
               clearConfig (logger_Error ''error building backend maps: %v'' [ArgError err] i2)
           | (None, i2) \<Rightarrow>
          (case call (Equals E cur (oldConfig i2)) (CallEquals cur (oldConfig i2)) i2 of
             (equal, i3) \<Rightarrow>
               if equal then
                 clearConfig (logger_InfoV 2 ''old and new configurations match, skipping reload'' [] i3)
               else Update_patch E cur i3))))"

section \<open>Histories\<close>

text \<open>
  The events that one call adds to the history: those of a whole cycle (\<open>Update\<close>), of
  its last part, and of \<open>check\<close> and \<open>reload\<close>.
\<close>

definition cycle :: "('c, 'b, 'w) env \<Rightarrow> ('c, 'b, 'w) instance_state \<Rightarrow> ('c, 'b) event list" where
  "cycle E i = drop (length (trace i)) (trace (Update E i))"

definition final_events ::
  "('c, 'b, 'w) env \<Rightarrow> bool \<Rightarrow> int \<Rightarrow> ('c, 'b, 'w) instance_state \<Rightarrow> ('c, 'b) event list" where
  "final_events E updated cmdCnt i =
     drop (length (trace i)) (trace (Update_final E updated cmdCnt i))"

definition check_events :: "('c, 'b, 'w) env \<Rightarrow> ('c, 'b, 'w) instance_state \<Rightarrow> ('c, 'b) event list" where
  "check_events E i = drop (length (trace i)) (trace (snd (check E i)))"

definition reload_events :: "('c, 'b, 'w) env \<Rightarrow> ('c, 'b, 'w) instance_state \<Rightarrow> ('c, 'b) event list" where
  "reload_events E i = drop (length (trace i)) (trace (snd (reload E i)))"

text \<open>
  The outside state along a cycle. \<open>sorted_world\<close> is the state after lines 141-145 (the
  loop over the backends when \<open>SortBackends\<close> is set, nothing otherwise) and \<open>sort_events\<close>
  the events of these lines; \<open>final_world\<close> is the state after lines 159-178: after the
  validation command when it runs, after the reload command when it runs, and the state
  as it was otherwise.
\<close>

definition sorted_world :: "('c, 'b, 'w) env \<Rightarrow> 'c \<Rightarrow> InstanceOptions \<Rightarrow> 'w \<Rightarrow> 'w" where
  "sorted_world E cur opt w =
     (if SortBackends opt then
        (case Backends E cur w of (backends, w1) \<Rightarrow> fold (SortEndpoints E) backends w1)
      else w)"

definition sort_events :: "('c, 'b, 'w) env \<Rightarrow> 'c \<Rightarrow> InstanceOptions \<Rightarrow> 'w \<Rightarrow> ('c, 'b) event list" where
  "sort_events E cur opt w =
     (if SortBackends opt then
        (case Backends E cur w of (backends, w1) \<Rightarrow>
           CallBackends cur backends # map CallSortEndpoints backends)
      else [])"

definition final_world :: "('c, 'b, 'w) env \<Rightarrow> bool \<Rightarrow> int \<Rightarrow> InstanceOptions \<Rightarrow> 'w \<Rightarrow> 'w" where
  "final_world E updated cmdCnt opt w =
     (if updated then
        (if 0 < cmdCnt \<and> ValidateConfig opt \<and> HAProxyCmd opt \<noteq> [] then
           snd (CombinedOutput E (HAProxyCmd opt) [''-c'', ''-f'', HAProxyConfigFile opt] w)
         else w)
      else
        (if ReloadCmd opt \<noteq> [] then
           snd (CombinedOutput E (ReloadCmd opt) [ReloadStrategy opt, HAProxyConfigFile opt] w)
         else w))"

text \<open>The calls that the ordering properties are about.\<close>

fun isDynUpdate :: "('c, 'b) event \<Rightarrow> bool" where
  "isDynUpdate (CallDynUpdate old cur updated cmdCnt) = True"
| "isDynUpdate _ = False"

fun isTemplatesWrite :: "('c, 'b) event \<Rightarrow> bool" where
  "isTemplatesWrite (CallTemplatesWrite c err) = True"
| "isTemplatesWrite _ = False"

fun isReload :: "('c, 'b) event \<Rightarrow> bool" where
  "isReload CallReload = True"
| "isReload _ = False"

text \<open>
  \<open>precedes P Q es\<close>: in the list \<open>es\<close> every \<open>P\<close> comes before every \<open>Q\<close>, that is,
  no \<open>P\<close> follows a \<open>Q\<close>.
\<close>

fun precedes :: "('a \<Rightarrow> bool) \<Rightarrow> ('a \<Rightarrow> bool) \<Rightarrow> 'a list \<Rightarrow> bool" where
  "precedes P Q [] = True"
| "precedes P Q (e # es) = ((Q e \<longrightarrow> \<not> list_ex P es) \<and> precedes P Q es)"

section \<open>A scripted environment\<close>

text \<open>
  Collaborators that return fixed results, for running the methods on concrete inputs:
  references are numbers, the outside state is the next unused reference, and
  \<open>createConfig\<close> hands it out.
\<close>

definition scripted ::
  "error option \<Rightarrow> error option \<Rightarrow> bool \<Rightarrow> bool \<times> int \<Rightarrow> error option \<Rightarrow> string \<times> error option
     \<Rightarrow> (nat, nat, nat) env" where
  "scripted bfg bbm eq upd wr ex =
     \<lparr>createConfig = (\<lambda>dir w. (w, Suc w)),
      BuildFrontendGroup = (\<lambda>c w. (bfg, w)),
      BuildBackendMaps = (\<lambda>c w. (bbm, w)),
      Equals = (\<lambda>c other w. (eq, w)),
      Backends = (\<lambda>c w. ([], w)),
      SortEndpoints = (\<lambda>b w. w),
      dynUpdate = (\<lambda>old cur w. (upd, w)),
      templatesWrite = (\<lambda>c w. (wr, w)),
      CombinedOutput = (\<lambda>name args w. (ex, w))\<rparr>"

definition opts :: InstanceOptions where
  "opts = \<lparr>MaxOldConfigFiles = 0, HAProxyCmd = ''haproxy'',
           HAProxyConfigFile = ''/etc/haproxy/haproxy.cfg'',
           ReloadCmd = ''/haproxy-reload.sh'', ReloadStrategy = ''native'',
           SortBackends = False, ValidateConfig = True\<rparr>"

definition inst :: "nat option \<Rightarrow> nat option \<Rightarrow> (nat, nat, nat) instance_state" where
  "inst old cur = \<lparr>options = opts, mapsDir = ''/etc/haproxy/maps'', oldConfig = old,
                   curConfig = cur, trace = [], world = 2\<rparr>"

text \<open>
  A second scripted environment, whose outside state is the list of the calls that were
  really made, in order: every collaborator appends its name (the subprocess: the name
  of the command). \<open>start\<close> is an instance with \<open>SortBackends\<close> set and nothing done yet.
\<close>

definition effects ::
  "bool \<times> int \<Rightarrow> error option \<Rightarrow> string \<times> error option \<Rightarrow> (nat, nat, string list) env" where
  "effects upd wr ex =
     \<lparr>createConfig = (\<lambda>dir w. (length w, w @ [''createConfig''])),
      BuildFrontendGroup = (\<lambda>c w. (None, w @ [''BuildFrontendGroup''])),
      BuildBackendMaps = (\<lambda>c w. (None, w @ [''BuildBackendMaps''])),
      Equals = (\<lambda>c other w. (False, w @ [''Equals''])),
      Backends = (\<lambda>c w. ([7, 8], w)),
      SortEndpoints = (\<lambda>b w. w @ [''SortEndpoints'']),
      dynUpdate = (\<lambda>old cur w. (upd, w @ [''update''])),
      templatesWrite = (\<lambda>c w. (wr, w @ [''Write''])),
      CombinedOutput = (\<lambda>name args w. (ex, w @ [name]))\<rparr>"

definition start :: "nat option \<Rightarrow> nat option \<Rightarrow> (nat, nat, string list) instance_state" where
  "start old cur = \<lparr>options = opts\<lparr>SortBackends := True\<rparr>, mapsDir = ''/etc/haproxy/maps'', oldConfig = old,
                    curConfig = cur, trace = [], world = []\<rparr>"

section \<open>What each method does to the state\<close>

lemma emit_fields [simp]:
  "options (emit e i) = options i"
  "mapsDir (emit e i) = mapsDir i"
  "oldConfig (emit e i) = oldConfig i"
  "curConfig (emit e i) = curConfig i"
  "world (emit e i) = world i"
  "trace (emit e i) = trace i @ [e]"
  by (simp_all add: emit_def)

lemma call_fst [simp]: "fst (call f ev i) = fst (f (world i))"
  by (simp add: call_def split_beta)

lemma call_snd [simp]:
  "snd (call f ev i) = emit (ev (fst (f (world i)))) (i\<lparr>world := snd (f (world i))\<rparr>)"
  by (simp add: call_def split_beta)

lemmas logger_defs = logger_Info_def logger_InfoV_def logger_Warn_def logger_Error_def
  timer_Tick_def

lemma clearConfig_fields [simp]:
  "options (clearConfig i) = options i"
  "mapsDir (clearConfig i) = mapsDir i"
  "oldConfig (clearConfig i) = curConfig i"
  "curConfig (clearConfig i) = None"
  "world (clearConfig i) = world i"
  "trace (clearConfig i) = trace i @ [CallClearConfig]"
  by (simp_all add: clearConfig_def)

lemma fold_sort_fields:
  fixes E :: "('c, 'b, 'w) env"
  defines "step \<equiv> (\<lambda>backend j. emit (CallSortEndpoints backend)
                              (j\<lparr>world := SortEndpoints E backend (world j)\<rparr>))"
  shows "options (fold step bs i) = options i \<and> mapsDir (fold step bs i) = mapsDir i
    \<and> oldConfig (fold step bs i) = oldConfig i \<and> curConfig (fold step bs i) = curConfig i
    \<and> trace (fold step bs i) = trace i @ map CallSortEndpoints bs"
  by (induction bs arbitrary: i) (simp_all add: step_def)

lemma sortBackends_fields [simp]:
  "options (sortBackends E c i) = options i"
  "mapsDir (sortBackends E c i) = mapsDir i"
  "oldConfig (sortBackends E c i) = oldConfig i"
  "curConfig (sortBackends E c i) = curConfig i"
  "trace (sortBackends E c i) =
     trace i @ CallBackends c (fst (Backends E c (world i)))
       # map CallSortEndpoints (fst (Backends E c (world i)))"
  by (simp_all add: sortBackends_def split_beta fold_sort_fields)

lemma check_fields [simp]:
  "options (snd (check E i)) = options i"
  "mapsDir (snd (check E i)) = mapsDir i"
  "oldConfig (snd (check E i)) = oldConfig i"
  "curConfig (snd (check E i)) = curConfig i"
  by (simp_all add: check_def Let_def split_beta logger_defs)

lemma check_trace: "trace (snd (check E i)) = trace i @ check_events E i"
  by (simp add: check_events_def check_def Let_def split_beta logger_defs)

lemma reload_fields [simp]:
  "options (snd (reload E i)) = options i"
  "mapsDir (snd (reload E i)) = mapsDir i"
  "oldConfig (snd (reload E i)) = oldConfig i"
  "curConfig (snd (reload E i)) = curConfig i"
  by (simp_all add: reload_def Let_def split_beta logger_defs)

lemma reload_trace: "trace (snd (reload E i)) = trace i @ reload_events E i"
  by (simp add: reload_events_def reload_def Let_def split_beta logger_defs)

lemma check_events_eq:
  "check_events E i =
     CallCheck #
       (if HAProxyCmd (options i) = [] then [LogInfo ''(test) check was skipped'' []]
        else
          [case fst (CombinedOutput E (HAProxyCmd (options i))
                       [''-c'', ''-f'', HAProxyConfigFile (options i)] (world i)) of
             (out, err) \<Rightarrow>
               CallExec (HAProxyCmd (options i))
                 [''-c'', ''-f'', HAProxyConfigFile (options i)] out err])"
  by (simp add: check_events_def check_def Let_def split_beta logger_defs)

lemma reload_events_eq:
  "reload_events E i =
     CallReload #
       (if ReloadCmd (options i) = [] then [LogInfo ''(test) reload was skipped'' []]
        else
          (case fst (CombinedOutput E (ReloadCmd (options i))
                       [ReloadStrategy (options i), HAProxyConfigFile (options i)] (world i)) of
             (out, err) \<Rightarrow>
               CallExec (ReloadCmd (options i))
                 [ReloadStrategy (options i), HAProxyConfigFile (options i)] out err
               # (if out \<noteq> [] then [LogWarn ''output from haproxy:\<newline>%v'' [ArgString out]]
                  else [])))"
  by (simp add: reload_events_def reload_def Let_def split_beta logger_defs)


lemma check_result:
  "fst (check E i) =
     (if HAProxyCmd (options i) = [] then None
      else
        (case fst (CombinedOutput E (HAProxyCmd (options i))
                     [''-c'', ''-f'', HAProxyConfigFile (options i)] (world i)) of
           (out, err) \<Rightarrow> if err \<noteq> None then Some (Errorf out) else None))"
  by (simp add: check_def Let_def split_beta logger_defs)

lemma Update_final_fields [simp]:
  "options (Update_final E u n i) = options i"
  "mapsDir (Update_final E u n i) = mapsDir i"
  "oldConfig (Update_final E u n i) = oldConfig i"
  "curConfig (Update_final E u n i) = curConfig i"
  by (simp_all add: Update_final_def Let_def split_beta logger_defs split: option.split)

lemma Update_final_trace_eq:
  "trace (Update_final E u n i) = trace i @
     (if u then
        (if 0 < n then
           (if ValidateConfig (options i) then
              check_events E i
              @ (case fst (check E i) of
                   Some e \<Rightarrow> [LogError ''error validating config file:\<newline>%v'' [ArgError e]]
                 | None \<Rightarrow> [])
              @ [TimerTick ''validate'']
            else [])
           @ [LogInfo ''HAProxy updated without needing to reload. Commands sent: %d'' [ArgInt n]]
         else [LogInfo ''old and new configurations match'' []])
      else
        reload_events E i
        @ (case fst (reload E i) of
             Some e \<Rightarrow> [LogError ''error reloading server:\<newline>%v'' [ArgError e]]
           | None \<Rightarrow> [TimerTick ''reload'', LogInfo ''HAProxy successfully reloaded'' []]))"
  by (simp add: Update_final_def Let_def split_beta logger_defs check_trace reload_trace
      split: option.split)

lemma drop_prefix: "xs = p @ ys \<Longrightarrow> drop (length p) xs = ys"
  by simp

lemma final_events_eq:
  "final_events E u n i =
     (if u then
        (if 0 < n then
           (if ValidateConfig (options i) then
              check_events E i
              @ (case fst (check E i) of
                   Some e \<Rightarrow> [LogError ''error validating config file:\<newline>%v'' [ArgError e]]
                 | None \<Rightarrow> [])
              @ [TimerTick ''validate'']
            else [])
           @ [LogInfo ''HAProxy updated without needing to reload. Commands sent: %d'' [ArgInt n]]
         else [LogInfo ''old and new configurations match'' []])
      else
        reload_events E i
        @ (case fst (reload E i) of
             Some e \<Rightarrow> [LogError ''error reloading server:\<newline>%v'' [ArgError e]]
           | None \<Rightarrow> [TimerTick ''reload'', LogInfo ''HAProxy successfully reloaded'' []]))"
  unfolding final_events_def by (rule drop_prefix) (rule Update_final_trace_eq)

lemma Update_final_trace: "trace (Update_final E u n i) = trace i @ final_events E u n i"
  by (simp only: final_events_eq Update_final_trace_eq)

lemma Update_patch_fields [simp]:
  "options (Update_patch E cur i) = options i"
  "mapsDir (Update_patch E cur i) = mapsDir i"
  "oldConfig (Update_patch E cur i) = curConfig i"
  "curConfig (Update_patch E cur i) = None"
  by (simp_all add: Update_patch_def Let_def split_beta logger_defs split: option.split)

lemma Update_patch_shape:
  "\<exists>u n srt werr j.
     trace (Update_patch E cur i) = trace i @
       CallDynUpdate (oldConfig i) cur u n # srt @
         (if \<not> u \<or> 0 < n then
            CallTemplatesWrite cur werr # TimerTick ''writeTmpl'' #
              (case werr of
                 Some e \<Rightarrow> [LogError ''error writing configuration: %v'' [ArgError e], CallClearConfig]
               | None \<Rightarrow> CallClearConfig # final_events E u n j)
          else CallClearConfig # final_events E u n j)
     \<and> (srt = [] \<or> (\<exists>bs. srt = CallBackends cur bs # map CallSortEndpoints bs))
     \<and> options j = options i"
proof -
  obtain u n w1 where r: "dynUpdate E (oldConfig i) cur (world i) = ((u, n), w1)"
    by (metis prod.exhaust)
  define i1 where "i1 = emit (CallDynUpdate (oldConfig i) cur u n) (i\<lparr>world := w1\<rparr>)"
  define i2 where "i2 = (if SortBackends (options i1) then sortBackends E cur i1 else i1)"
  define srt where "srt = (if SortBackends (options i)
      then CallBackends cur (fst (Backends E cur w1)) # map CallSortEndpoints (fst (Backends E cur w1))
      else [])"
  obtain werr w3 where w: "templatesWrite E cur (world i2) = (werr, w3)"
    by (metis prod.exhaust)
  define i4 where
    "i4 = timer_Tick ''writeTmpl'' (emit (CallTemplatesWrite cur werr) (i2\<lparr>world := w3\<rparr>))"
  define j where "j = (if \<not> u \<or> 0 < n then clearConfig i4 else clearConfig i2)"
  have t2: "trace i2 = trace i @ CallDynUpdate (oldConfig i) cur u n # srt"
    by (simp add: i2_def i1_def srt_def)
  have o2: "options i2 = options i"
    by (simp add: i2_def i1_def)
  have t4: "trace i4 = trace i2 @ [CallTemplatesWrite cur werr, TimerTick ''writeTmpl'']"
    by (simp add: i4_def logger_defs)
  have o4: "options i4 = options i2"
    by (simp add: i4_def logger_defs)
  have unf: "Update_patch E cur i =
      (if \<not> u \<or> 0 < n then
         (case werr of
            Some e \<Rightarrow> clearConfig (logger_Error ''error writing configuration: %v'' [ArgError e] i4)
          | None \<Rightarrow> Update_final E u n (clearConfig i4))
       else Update_final E u n (clearConfig i2))"
    unfolding Update_patch_def call_def r prod.case Let_def i1_def [symmetric]
      i2_def [symmetric] w i4_def [symmetric]
    by (rule refl)
  have tr: "trace (Update_patch E cur i) = trace i @
       CallDynUpdate (oldConfig i) cur u n # srt @
         (if \<not> u \<or> 0 < n then
            CallTemplatesWrite cur werr # TimerTick ''writeTmpl'' #
              (case werr of
                 Some e \<Rightarrow> [LogError ''error writing configuration: %v'' [ArgError e], CallClearConfig]
               | None \<Rightarrow> CallClearConfig # final_events E u n j)
          else CallClearConfig # final_events E u n j)"
    unfolding unf
    by (simp add: Update_final_trace t2 t4 j_def logger_defs split: option.split)
  have s: "srt = [] \<or> (\<exists>bs. srt = CallBackends cur bs # map CallSortEndpoints bs)"
    by (simp add: srt_def)
  have o: "options j = options i"
    by (simp add: j_def o2 o4)
  from tr s o show ?thesis by blast
qed


lemma Update_absent:
  "curConfig i = None \<Longrightarrow> Update E i = i\<lparr>trace := trace i @ [LogInfo ''new configuration is empty'' []]\<rparr>"
  by (simp add: Update_def logger_defs emit_def)

lemma Update_slots:
  "curConfig i = Some c \<Longrightarrow> oldConfig (Update E i) = Some c \<and> curConfig (Update E i) = None"
  by (simp add: Update_def Let_def split_beta logger_defs split: option.split)

lemma Update_options [simp]: "options (Update E i) = options i" "mapsDir (Update E i) = mapsDir i"
  by (simp_all add: Update_def Let_def split_beta logger_defs split: option.split)

lemma cycle_cases [case_names absent bfg_fail bbm_fail equal write_fail written live]:
  fixes E :: "('c, 'b, 'w) env" and i :: "('c, 'b, 'w) instance_state"
  assumes "curConfig i = None \<Longrightarrow> cycle E i = [LogInfo ''new configuration is empty'' []] \<Longrightarrow> P"
    and "\<And>cur e. curConfig i = Some cur \<Longrightarrow>
           cycle E i = [CallBuildFrontendGroup cur (Some e),
                        LogError ''error building configuration group: %v'' [ArgError e],
                        CallClearConfig] \<Longrightarrow> P"
    and "\<And>cur e. curConfig i = Some cur \<Longrightarrow>
           cycle E i = [CallBuildFrontendGroup cur None, CallBuildBackendMaps cur (Some e),
                        LogError ''error building backend maps: %v'' [ArgError e],
                        CallClearConfig] \<Longrightarrow> P"
    and "\<And>cur. curConfig i = Some cur \<Longrightarrow>
           cycle E i = [CallBuildFrontendGroup cur None, CallBuildBackendMaps cur None,
                        CallEquals cur (oldConfig i) True,
                        LogInfoV 2 ''old and new configurations match, skipping reload'' [],
                        CallClearConfig] \<Longrightarrow> P"
    and "\<And>cur u n srt e. curConfig i = Some cur \<Longrightarrow> \<not> u \<or> 0 < n \<Longrightarrow>
           srt = [] \<or> (\<exists>bs. srt = CallBackends cur bs # map CallSortEndpoints bs) \<Longrightarrow>
           cycle E i = [CallBuildFrontendGroup cur None, CallBuildBackendMaps cur None,
                        CallEquals cur (oldConfig i) False, CallDynUpdate (oldConfig i) cur u n]
                       @ srt
                       @ [CallTemplatesWrite cur (Some e), TimerTick ''writeTmpl'',
                          LogError ''error writing configuration: %v'' [ArgError e],
                          CallClearConfig] \<Longrightarrow> P"
    and "\<And>cur u n srt j. curConfig i = Some cur \<Longrightarrow> \<not> u \<or> 0 < n \<Longrightarrow>
           srt = [] \<or> (\<exists>bs. srt = CallBackends cur bs # map CallSortEndpoints bs) \<Longrightarrow>
           options j = options i \<Longrightarrow>
           cycle E i = [CallBuildFrontendGroup cur None, CallBuildBackendMaps cur None,
                        CallEquals cur (oldConfig i) False, CallDynUpdate (oldConfig i) cur u n]
                       @ srt
                       @ [CallTemplatesWrite cur None, TimerTick ''writeTmpl'', CallClearConfig]
                       @ final_events E u n j \<Longrightarrow> P"
    and "\<And>cur n srt j. curConfig i = Some cur \<Longrightarrow> \<not> 0 < n \<Longrightarrow>
           srt = [] \<or> (\<exists>bs. srt = CallBackends cur bs # map CallSortEndpoints bs) \<Longrightarrow>
           options j = options i \<Longrightarrow>
           cycle E i = [CallBuildFrontendGroup cur None, CallBuildBackendMaps cur None,
                        CallEquals cur (oldConfig i) False, CallDynUpdate (oldConfig i) cur True n]
                       @ srt
                       @ [CallClearConfig]
                       @ final_events E True n j \<Longrightarrow> P"
  shows P
proof (cases "curConfig i")
  case None
  then show ?thesis using assms(1) by (simp add: cycle_def Update_absent)
next
  case (Some cur)
  obtain r1 w1 where b1: "BuildFrontendGroup E cur (world i) = (r1, w1)" by (metis prod.exhaust)
  define i1 where "i1 = emit (CallBuildFrontendGroup cur r1) (i\<lparr>world := w1\<rparr>)"
  obtain r2 w2 where b2: "BuildBackendMaps E cur (world i1) = (r2, w2)" by (metis prod.exhaust)
  define i2 where "i2 = emit (CallBuildBackendMaps cur r2) (i1\<lparr>world := w2\<rparr>)"
  obtain eq w3 where b3: "Equals E cur (oldConfig i2) (world i2) = (eq, w3)" by (metis prod.exhaust)
  define i3 where "i3 = emit (CallEquals cur (oldConfig i2) eq) (i2\<lparr>world := w3\<rparr>)"
  have unf: "Update E i =
      (case r1 of
         Some err \<Rightarrow> clearConfig (logger_Error ''error building configuration group: %v'' [ArgError err] i1)
       | None \<Rightarrow>
      (case r2 of
         Some err \<Rightarrow> clearConfig (logger_Error ''error building backend maps: %v'' [ArgError err] i2)
       | None \<Rightarrow>
         if eq then clearConfig (logger_InfoV 2 ''old and new configurations match, skipping reload'' [] i3)
         else Update_patch E cur i3))"
    unfolding Update_def Some option.case call_def b1 prod.case i1_def [symmetric] b2
      i2_def [symmetric] b3 i3_def [symmetric]
    by (simp split: option.split)
  have t1: "trace i1 = trace i @ [CallBuildFrontendGroup cur r1]" by (simp add: i1_def)
  have t2: "trace i2 = trace i1 @ [CallBuildBackendMaps cur r2]" by (simp add: i2_def)
  have o2: "oldConfig i2 = oldConfig i" by (simp add: i2_def i1_def)
  have t3: "trace i3 = trace i2 @ [CallEquals cur (oldConfig i) eq]" by (simp add: i3_def o2)
  have f3: "oldConfig i3 = oldConfig i" "options i3 = options i"
    by (simp_all add: i3_def i2_def i1_def)
  show ?thesis
  proof (cases r1)
    case (Some e)
    then have "cycle E i = [CallBuildFrontendGroup cur (Some e),
                        LogError ''error building configuration group: %v'' [ArgError e],
                        CallClearConfig]"
      by (simp add: cycle_def unf t1 logger_defs)
    then show ?thesis using assms(2) \<open>curConfig i = Some cur\<close> by blast
  next
    case r1: None
    show ?thesis
    proof (cases r2)
      case (Some e)
      then have "cycle E i = [CallBuildFrontendGroup cur None, CallBuildBackendMaps cur (Some e),
                        LogError ''error building backend maps: %v'' [ArgError e],
                        CallClearConfig]"
        by (simp add: cycle_def unf r1 t1 t2 logger_defs)
      then show ?thesis using assms(3) \<open>curConfig i = Some cur\<close> by blast
    next
      case r2: None
      show ?thesis
      proof (cases eq)
        case True
        then have "cycle E i = [CallBuildFrontendGroup cur None, CallBuildBackendMaps cur None,
                        CallEquals cur (oldConfig i) True,
                        LogInfoV 2 ''old and new configurations match, skipping reload'' [],
                        CallClearConfig]"
          by (simp add: cycle_def unf r1 r2 t1 t2 t3 logger_defs)
        then show ?thesis using assms(4) \<open>curConfig i = Some cur\<close> by blast
      next
        case False
        obtain u n srt werr j where
          sh: "trace (Update_patch E cur i3) = trace i3 @
             CallDynUpdate (oldConfig i3) cur u n # srt @
               (if \<not> u \<or> 0 < n then
                  CallTemplatesWrite cur werr # TimerTick ''writeTmpl'' #
                    (case werr of
                       Some e \<Rightarrow> [LogError ''error writing configuration: %v'' [ArgError e], CallClearConfig]
                     | None \<Rightarrow> CallClearConfig # final_events E u n j)
                else CallClearConfig # final_events E u n j)"
          and srt: "srt = [] \<or> (\<exists>bs. srt = CallBackends cur bs # map CallSortEndpoints bs)"
          and oj: "options j = options i3"
          using Update_patch_shape [of E cur i3] by blast
        have cy: "cycle E i = [CallBuildFrontendGroup cur None, CallBuildBackendMaps cur None,
                        CallEquals cur (oldConfig i) False, CallDynUpdate (oldConfig i) cur u n]
                       @ srt @
               (if \<not> u \<or> 0 < n then
                  CallTemplatesWrite cur werr # TimerTick ''writeTmpl'' #
                    (case werr of
                       Some e \<Rightarrow> [LogError ''error writing configuration: %v'' [ArgError e], CallClearConfig]
                     | None \<Rightarrow> CallClearConfig # final_events E u n j)
                else CallClearConfig # final_events E u n j)"
          using False r1 r2 by (simp add: cycle_def unf sh t1 t2 t3 f3)
        show ?thesis
        proof (cases "\<not> u \<or> 0 < n")
          case gate: True
          show ?thesis
          proof (cases werr)
            case None
            then show ?thesis
              using assms(6) [OF \<open>curConfig i = Some cur\<close> gate srt, of j] cy gate oj f3 by simp
          next
            case (Some e)
            then show ?thesis
              using assms(5) [OF \<open>curConfig i = Some cur\<close> gate srt, of e] cy gate by simp
          qed
        next
          case nogate: False
          then have u: "u = True" and n: "\<not> 0 < n" by auto
          show ?thesis
            using assms(7) [OF \<open>curConfig i = Some cur\<close> n srt, of j] cy nogate oj f3 u by simp
        qed
      qed
    qed
  qed
qed


lemma final_events_free:
  "CallClearConfig \<notin> set (final_events E u n j)"
  "CallTemplatesWrite c r \<notin> set (final_events E u n j)"
  "CallDynUpdate a c b m \<notin> set (final_events E u n j)"
  by (auto simp: final_events_eq check_events_eq reload_events_eq
      split: option.splits prod.splits if_splits)

lemma final_events_reload: "CallReload \<in> set (final_events E u n j) \<longleftrightarrow> \<not> u"
  by (auto simp: final_events_eq check_events_eq reload_events_eq
      split: option.splits prod.splits if_splits)

lemma sort_events_free:
  assumes "srt = [] \<or> (\<exists>bs. srt = CallBackends cur bs # map CallSortEndpoints bs)"
  shows "CallClearConfig \<notin> set srt" "CallTemplatesWrite c r \<notin> set srt"
    "CallDynUpdate a c b m \<notin> set srt" "CallReload \<notin> set srt"
  using assms by auto

lemma precedes_append:
  "precedes P Q (xs @ ys) \<longleftrightarrow>
     precedes P Q xs \<and> precedes P Q ys \<and> (list_ex Q xs \<longrightarrow> \<not> list_ex P ys)"
  by (induction xs) (auto simp: list_ex_iff)

lemma final_events_kinds:
  "\<not> list_ex isDynUpdate (final_events E u n j)"
  "\<not> list_ex isTemplatesWrite (final_events E u n j)"
  by (auto simp: final_events_eq check_events_eq reload_events_eq list_ex_iff
      split: option.splits prod.splits if_splits)

lemma sort_events_exec:
  assumes "srt = [] \<or> (\<exists>bs. srt = CallBackends cur bs # map CallSortEndpoints bs)"
  shows "CallExec cmd args out err \<notin> set srt" "CallCheck \<notin> set srt"
  using assms by auto

lemma precedes_no_first: "\<not> list_ex P xs \<Longrightarrow> precedes P Q xs"
  by (induction xs) (auto simp: list_ex_iff)

lemma final_events_failed_check:
  assumes "0 < n" and "ValidateConfig (options j)"
    and "CallExec cmd args out (Some xerr) \<in> set (final_events E True n j)"
  shows "final_events E True n j =
     [CallCheck, CallExec cmd args out (Some xerr),
      LogError ''error validating config file:\<newline>%v'' [ArgError (Errorf out)],
      TimerTick ''validate'',
      LogInfo ''HAProxy updated without needing to reload. Commands sent: %d'' [ArgInt n]]"
  using assms
  by (auto simp: final_events_eq check_events_eq check_result
      split: if_splits option.splits prod.splits)

text \<open>\<open>check\<close>, case by case.\<close>

lemma doPrintf_plain: "CHR ''%'' \<notin> set format \<Longrightarrow> doPrintf format = format"
  by (subst doPrintf.simps) (auto simp: Let_def takeWhile_eq_all_conv)

lemma check_no_command:
  assumes "HAProxyCmd (options i) = []"
  shows "check E i =
     (None, i\<lparr>trace := trace i @ [CallCheck, LogInfo ''(test) check was skipped'' []]\<rparr>)"
  using assms by (simp add: check_def Let_def logger_defs emit_def)

lemma check_exit:
  assumes "HAProxyCmd (options i) \<noteq> []"
    and "CombinedOutput E (HAProxyCmd (options i))
           [''-c'', ''-f'', HAProxyConfigFile (options i)] (world i) = ((out, err), w)"
  shows "check E i =
     ((if err \<noteq> None then Some (Errorf out) else None),
      i\<lparr>world := w,
        trace := trace i @ [CallCheck,
                            CallExec (HAProxyCmd (options i))
                              [''-c'', ''-f'', HAProxyConfigFile (options i)] out err]\<rparr>)"
  using assms by (simp add: check_def Let_def call_def emit_def)

lemma check_nonzero_exit_plain:
  assumes "HAProxyCmd (options i) \<noteq> []"
    and "CombinedOutput E (HAProxyCmd (options i))
           [''-c'', ''-f'', HAProxyConfigFile (options i)] (world i) = ((out, Some e), w)"
    and "CHR ''%'' \<notin> set out"
  shows "fst (check E i) = Some (ErrorString out)"
  using assms by (simp add: check_exit Errorf_def doPrintf_plain)

lemmas fmt_defs = Errorf_def one_verb_def argNumber_def width_part_def prec_part_def
  verb_part_def parsenum_def isFlag_def isDigit_def byte_def

text \<open>\<open>doPrintf\<close> on a few formats, no operand given.\<close>

lemma doPrintf_examples:
  "doPrintf ''hi%d'' = ''hi%!d(MISSING)''"
  "doPrintf ''50%% done'' = ''50% done''"
  "doPrintf ''load 100%'' = ''load 100%!(NOVERB)''"
  "doPrintf ''load 100%.'' = ''load 100%!.(MISSING)''"
  "doPrintf ''%5.'' = ''%!.(MISSING)''"
  "doPrintf ''%[1].'' = ''%!.(BADINDEX)''"
  "doPrintf ''%.2f%*d'' = ''%!f(MISSING)%!(BADWIDTH)%!d(MISSING)''"
  by (simp_all add: fmt_defs parseArgNumber_def tooLarge_def doPrintf.simps)

text \<open>
  The outside state through each method, and a cycle that reaches the dynamic updater in
  terms of what the collaborators return.
\<close>

lemma fold_sort_world:
  fixes E :: "('c, 'b, 'w) env"
  shows "world (fold (\<lambda>backend j. emit (CallSortEndpoints backend)
                              (j\<lparr>world := SortEndpoints E backend (world j)\<rparr>)) bs i)
         = fold (SortEndpoints E) bs (world i)"
  by (induction bs arbitrary: i) simp_all

lemma sortBackends_world:
  "world (sortBackends E c i) =
     (case Backends E c (world i) of (backends, w1) \<Rightarrow> fold (SortEndpoints E) backends w1)"
  by (simp add: sortBackends_def split_beta fold_sort_world)

lemma check_world:
  "world (snd (check E i)) =
     (if HAProxyCmd (options i) = [] then world i
      else snd (CombinedOutput E (HAProxyCmd (options i))
                  [''-c'', ''-f'', HAProxyConfigFile (options i)] (world i)))"
  by (simp add: check_def Let_def split_beta logger_defs)

lemma reload_world:
  "world (snd (reload E i)) =
     (if ReloadCmd (options i) = [] then world i
      else snd (CombinedOutput E (ReloadCmd (options i))
                  [ReloadStrategy (options i), HAProxyConfigFile (options i)] (world i)))"
  by (simp add: reload_def Let_def split_beta logger_defs)

lemma Update_final_world:
  "world (Update_final E u n i) = final_world E u n (options i) (world i)"
  by (simp add: Update_final_def final_world_def Let_def split_beta logger_defs
      check_world reload_world split: option.split)

lemma Update_patch_run:
  assumes upd: "dynUpdate E (oldConfig i) cur (world i) = ((u, n), w4)"
    and wr: "templatesWrite E cur (sorted_world E cur (options i) w4) = (werr, w6)"
  shows "\<exists>j. options j = options i
     \<and> world j = (if \<not> u \<or> 0 < n then w6 else sorted_world E cur (options i) w4)
     \<and> trace (Update_patch E cur i) = trace i @
         CallDynUpdate (oldConfig i) cur u n # sort_events E cur (options i) w4 @
           (if \<not> u \<or> 0 < n then
              CallTemplatesWrite cur werr # TimerTick ''writeTmpl'' #
                (case werr of
                   Some e \<Rightarrow> [LogError ''error writing configuration: %v'' [ArgError e], CallClearConfig]
                 | None \<Rightarrow> CallClearConfig # final_events E u n j)
            else CallClearConfig # final_events E u n j)
     \<and> world (Update_patch E cur i) =
         (if \<not> u \<or> 0 < n then
            (case werr of Some e \<Rightarrow> w6 | None \<Rightarrow> final_world E u n (options i) w6)
          else final_world E u n (options i) (sorted_world E cur (options i) w4))"
proof -
  define i1 where "i1 = emit (CallDynUpdate (oldConfig i) cur u n) (i\<lparr>world := w4\<rparr>)"
  define i2 where "i2 = (if SortBackends (options i1) then sortBackends E cur i1 else i1)"
  have w2: "world i2 = sorted_world E cur (options i) w4"
    by (simp add: i2_def i1_def sorted_world_def sortBackends_world)
  have wr2: "templatesWrite E cur (world i2) = (werr, w6)"
    using wr w2 by simp
  define i4 where
    "i4 = timer_Tick ''writeTmpl'' (emit (CallTemplatesWrite cur werr) (i2\<lparr>world := w6\<rparr>))"
  define j where "j = (if \<not> u \<or> 0 < n then clearConfig i4 else clearConfig i2)"
  have t2: "trace i2 = trace i @ CallDynUpdate (oldConfig i) cur u n # sort_events E cur (options i) w4"
    by (simp add: i2_def i1_def sort_events_def split_beta)
  have o2: "options i2 = options i"
    by (simp add: i2_def i1_def)
  have t4: "trace i4 = trace i2 @ [CallTemplatesWrite cur werr, TimerTick ''writeTmpl'']"
    by (simp add: i4_def logger_defs)
  have o4: "options i4 = options i2" "world i4 = w6"
    by (simp_all add: i4_def logger_defs)
  have unf: "Update_patch E cur i =
      (if \<not> u \<or> 0 < n then
         (case werr of
            Some e \<Rightarrow> clearConfig (logger_Error ''error writing configuration: %v'' [ArgError e] i4)
          | None \<Rightarrow> Update_final E u n (clearConfig i4))
       else Update_final E u n (clearConfig i2))"
    unfolding Update_patch_def call_def upd prod.case Let_def i1_def [symmetric]
      i2_def [symmetric] wr2 i4_def [symmetric]
    by (rule refl)
  have oj: "options j = options i"
    by (simp add: j_def o2 o4)
  have wj: "world j = (if \<not> u \<or> 0 < n then w6 else sorted_world E cur (options i) w4)"
    by (simp add: j_def o4 w2)
  have tr: "trace (Update_patch E cur i) = trace i @
         CallDynUpdate (oldConfig i) cur u n # sort_events E cur (options i) w4 @
           (if \<not> u \<or> 0 < n then
              CallTemplatesWrite cur werr # TimerTick ''writeTmpl'' #
                (case werr of
                   Some e \<Rightarrow> [LogError ''error writing configuration: %v'' [ArgError e], CallClearConfig]
                 | None \<Rightarrow> CallClearConfig # final_events E u n j)
            else CallClearConfig # final_events E u n j)"
    unfolding unf
    by (simp add: Update_final_trace t2 t4 j_def logger_defs split: option.split)
  have wo: "world (Update_patch E cur i) =
         (if \<not> u \<or> 0 < n then
            (case werr of Some e \<Rightarrow> w6 | None \<Rightarrow> final_world E u n (options i) w6)
          else final_world E u n (options i) (sorted_world E cur (options i) w4))"
    unfolding unf
    by (simp add: Update_final_world o2 o4 w2 logger_defs split: option.split)
  from oj wj tr wo show ?thesis by blast
qed

lemma cycle_run:
  assumes cur: "curConfig i = Some cur"
    and b1: "BuildFrontendGroup E cur (world i) = (None, w1)"
    and b2: "BuildBackendMaps E cur w1 = (None, w2)"
    and eq: "Equals E cur (oldConfig i) w2 = (False, w3)"
    and upd: "dynUpdate E (oldConfig i) cur w3 = ((u, n), w4)"
    and wr: "templatesWrite E cur (sorted_world E cur (options i) w4) = (werr, w6)"
  shows "\<exists>j. options j = options i
     \<and> world j = (if \<not> u \<or> 0 < n then w6 else sorted_world E cur (options i) w4)
     \<and> cycle E i =
         [CallBuildFrontendGroup cur None, CallBuildBackendMaps cur None,
          CallEquals cur (oldConfig i) False, CallDynUpdate (oldConfig i) cur u n]
         @ sort_events E cur (options i) w4 @
           (if \<not> u \<or> 0 < n then
              CallTemplatesWrite cur werr # TimerTick ''writeTmpl'' #
                (case werr of
                   Some e \<Rightarrow> [LogError ''error writing configuration: %v'' [ArgError e], CallClearConfig]
                 | None \<Rightarrow> CallClearConfig # final_events E u n j)
            else CallClearConfig # final_events E u n j)
     \<and> world (Update E i) =
         (if \<not> u \<or> 0 < n then
            (case werr of Some e \<Rightarrow> w6 | None \<Rightarrow> final_world E u n (options i) w6)
          else final_world E u n (options i) (sorted_world E cur (options i) w4))"
proof -
  define i1 where "i1 = emit (CallBuildFrontendGroup cur None) (i\<lparr>world := w1\<rparr>)"
  define i2 where "i2 = emit (CallBuildBackendMaps cur None) (i1\<lparr>world := w2\<rparr>)"
  define i3 where "i3 = emit (CallEquals cur (oldConfig i) False) (i2\<lparr>world := w3\<rparr>)"
  have f3: "oldConfig i3 = oldConfig i" "options i3 = options i" "world i3 = w3"
    "trace i3 = trace i @ [CallBuildFrontendGroup cur None, CallBuildBackendMaps cur None,
          CallEquals cur (oldConfig i) False]"
    by (simp_all add: i3_def i2_def i1_def)
  have unf: "Update E i = Update_patch E cur i3"
    by (simp add: Update_def cur call_def b1 b2 eq i1_def i2_def i3_def)
  have upd3: "dynUpdate E (oldConfig i3) cur (world i3) = ((u, n), w4)"
    using upd f3 by simp
  have wr3: "templatesWrite E cur (sorted_world E cur (options i3) w4) = (werr, w6)"
    using wr f3 by simp
  obtain j where j: "options j = options i3"
     "world j = (if \<not> u \<or> 0 < n then w6 else sorted_world E cur (options i3) w4)"
     "trace (Update_patch E cur i3) = trace i3 @
         CallDynUpdate (oldConfig i3) cur u n # sort_events E cur (options i3) w4 @
           (if \<not> u \<or> 0 < n then
              CallTemplatesWrite cur werr # TimerTick ''writeTmpl'' #
                (case werr of
                   Some e \<Rightarrow> [LogError ''error writing configuration: %v'' [ArgError e], CallClearConfig]
                 | None \<Rightarrow> CallClearConfig # final_events E u n j)
            else CallClearConfig # final_events E u n j)"
     "world (Update_patch E cur i3) =
         (if \<not> u \<or> 0 < n then
            (case werr of Some e \<Rightarrow> w6 | None \<Rightarrow> final_world E u n (options i3) w6)
          else final_world E u n (options i3) (sorted_world E cur (options i3) w4))"
    using Update_patch_run [OF upd3 wr3] by blast
  have cy: "cycle E i =
         [CallBuildFrontendGroup cur None, CallBuildBackendMaps cur None,
          CallEquals cur (oldConfig i) False, CallDynUpdate (oldConfig i) cur u n]
         @ sort_events E cur (options i) w4 @
           (if \<not> u \<or> 0 < n then
              CallTemplatesWrite cur werr # TimerTick ''writeTmpl'' #
                (case werr of
                   Some e \<Rightarrow> [LogError ''error writing configuration: %v'' [ArgError e], CallClearConfig]
                 | None \<Rightarrow> CallClearConfig # final_events E u n j)
            else CallClearConfig # final_events E u n j)"
    by (simp add: cycle_def unf j(3) f3)
  have oj: "options j = options i"
    using j(1) f3 by simp
  have wj: "world j = (if \<not> u \<or> 0 < n then w6 else sorted_world E cur (options i) w4)"
    using j(2) f3 by simp
  have wo: "world (Update E i) =
         (if \<not> u \<or> 0 < n then
            (case werr of Some e \<Rightarrow> w6 | None \<Rightarrow> final_world E u n (options i) w6)
          else final_world E u n (options i) (sorted_world E cur (options i) w4))"
    using j(4) f3 unf by (simp split: option.split)
  from oj wj cy wo show ?thesis by blast
qed

lemma sort_events_shape:
  "sort_events E cur opt w = [] \<or>
   (\<exists>bs. sort_events E cur opt w = CallBackends cur bs # map CallSortEndpoints bs)"
  by (simp add: sort_events_def split_beta)

lemma sort_events_filters:
  "filter isDynUpdate (sort_events E cur opt w) = []"
  "filter isTemplatesWrite (sort_events E cur opt w) = []"
  "filter isReload (sort_events E cur opt w) = []"
  "\<not> list_ex isDynUpdate (sort_events E cur opt w)"
  "\<not> list_ex isTemplatesWrite (sort_events E cur opt w)"
  "\<not> list_ex isReload (sort_events E cur opt w)"
  using sort_events_shape [of E cur opt w]
  by (auto simp: filter_empty_conv list_ex_iff)

lemma final_events_filters:
  "filter isDynUpdate (final_events E u n j) = []"
  "filter isTemplatesWrite (final_events E u n j) = []"
  "filter isReload (final_events E u n j) = (if u then [] else [CallReload])"
  by (auto simp: final_events_eq check_events_eq reload_events_eq
      split: option.splits prod.splits if_splits)

lemma final_world_live: "\<not> 0 < n \<Longrightarrow> final_world E True n opt w = w"
  by (simp add: final_world_def)

lemmas effects_defs = effects_def start_def opts_def sorted_world_def final_world_def

lemmas run_defs = cycle_def Update_def Update_patch_def Update_final_def check_def reload_def
  sortBackends_def clearConfig_def call_def emit_def logger_defs scripted_def opts_def inst_def

text \<open>
  Three cycles on the scripted environment, with their whole histories: a first
  configuration that needs a reload; a change applied live with one command, with two
  backends sorted and a validation that succeeds; and a reload that fails.
\<close>

lemma cycle_examples:
  "cycle (scripted None None False (False, 0) None ([], None)) (inst None (Some 1)) =
     [CallBuildFrontendGroup 1 None, CallBuildBackendMaps 1 None, CallEquals 1 None False,
      CallDynUpdate None 1 False 0, CallTemplatesWrite 1 None, TimerTick ''writeTmpl'',
      CallClearConfig, CallReload,
      CallExec ''/haproxy-reload.sh'' [''native'', ''/etc/haproxy/haproxy.cfg''] [] None,
      TimerTick ''reload'', LogInfo ''HAProxy successfully reloaded'' []]"
  "cycle ((scripted None None False (True, 1) None ([], None))\<lparr>Backends := (\<lambda>c w. ([7, 8], w))\<rparr>)
         ((inst (Some 0) (Some 1))\<lparr>options := opts\<lparr>SortBackends := True\<rparr>\<rparr>) =
     [CallBuildFrontendGroup 1 None, CallBuildBackendMaps 1 None, CallEquals 1 (Some 0) False,
      CallDynUpdate (Some 0) 1 True 1, CallBackends 1 [7, 8], CallSortEndpoints 7,
      CallSortEndpoints 8, CallTemplatesWrite 1 None, TimerTick ''writeTmpl'',
      CallClearConfig, CallCheck,
      CallExec ''haproxy'' [''-c'', ''-f'', ''/etc/haproxy/haproxy.cfg''] [] None,
      TimerTick ''validate'',
      LogInfo ''HAProxy updated without needing to reload. Commands sent: %d'' [ArgInt 1]]"
  "cycle (scripted None None False (False, 0) None
            (''bad config'', Some (ErrorString ''exit status 1'')))
         (inst (Some 0) (Some 1)) =
     [CallBuildFrontendGroup 1 None, CallBuildBackendMaps 1 None, CallEquals 1 (Some 0) False,
      CallDynUpdate (Some 0) 1 False 0, CallTemplatesWrite 1 None, TimerTick ''writeTmpl'',
      CallClearConfig, CallReload,
      CallExec ''/haproxy-reload.sh'' [''native'', ''/etc/haproxy/haproxy.cfg''] ''bad config''
        (Some (ErrorString ''exit status 1'')),
      LogWarn ''output from haproxy:\<newline>%v'' [ArgString ''bad config''],
      LogError ''error reloading server:\<newline>%v'' [ArgError (ErrorString ''exit status 1'')]]"
  by (simp_all add: run_defs)

section \<open>The claims\<close>

text \<open>
  C1. Take a cycle with a current generation in which both build phases return no
  error, \<open>Equals\<close> answers false and the dynamic updater returns \<open>updated\<close> and
  \<open>cmdCnt\<close>, whatever they are. Then \<open>templates.Write\<close> is called if and only if
  \<open>updated\<close> is false or \<open>cmdCnt > 0\<close>. When it is called, it is called once, for the
  current generation, on the outside state that the updater and the optional sort left;
  the history holds the result it returned and the cycle goes on from the outside
  state it returned. When \<open>updated\<close> is true and \<open>cmdCnt\<close> is not positive it is not
  called: the cycle ends in the outside state that the updater and the sort left.
\<close>

theorem C1_write_gating:
  assumes "curConfig i = Some cur"
    and "BuildFrontendGroup E cur (world i) = (None, w1)"
    and "BuildBackendMaps E cur w1 = (None, w2)"
    and "Equals E cur (oldConfig i) w2 = (False, w3)"
    and "dynUpdate E (oldConfig i) cur w3 = ((updated, cmdCnt), w4)"
    and "templatesWrite E cur (sorted_world E cur (options i) w4) = (werr, w6)"
  shows "(list_ex isTemplatesWrite (cycle E i) \<longleftrightarrow> (\<not> updated \<or> 0 < cmdCnt))
    \<and> filter isTemplatesWrite (cycle E i) =
        (if \<not> updated \<or> 0 < cmdCnt then [CallTemplatesWrite cur werr] else [])
    \<and> world (Update E i) =
        (if \<not> updated \<or> 0 < cmdCnt then
           (case werr of Some e \<Rightarrow> w6 | None \<Rightarrow> final_world E updated cmdCnt (options i) w6)
         else sorted_world E cur (options i) w4)"
proof -
  obtain j where cy: "cycle E i =
         [CallBuildFrontendGroup cur None, CallBuildBackendMaps cur None,
          CallEquals cur (oldConfig i) False, CallDynUpdate (oldConfig i) cur updated cmdCnt]
         @ sort_events E cur (options i) w4 @
           (if \<not> updated \<or> 0 < cmdCnt then
              CallTemplatesWrite cur werr # TimerTick ''writeTmpl'' #
                (case werr of
                   Some e \<Rightarrow> [LogError ''error writing configuration: %v'' [ArgError e], CallClearConfig]
                 | None \<Rightarrow> CallClearConfig # final_events E updated cmdCnt j)
            else CallClearConfig # final_events E updated cmdCnt j)"
    and wo: "world (Update E i) =
         (if \<not> updated \<or> 0 < cmdCnt then
            (case werr of Some e \<Rightarrow> w6 | None \<Rightarrow> final_world E updated cmdCnt (options i) w6)
          else final_world E updated cmdCnt (options i) (sorted_world E cur (options i) w4))"
    using cycle_run [OF assms] by blast
  have f: "filter isTemplatesWrite (cycle E i) =
        (if \<not> updated \<or> 0 < cmdCnt then [CallTemplatesWrite cur werr] else [])"
    unfolding cy
    by (simp add: sort_events_filters final_events_filters split: option.split)
  have l: "list_ex isTemplatesWrite (cycle E i) \<longleftrightarrow> (\<not> updated \<or> 0 < cmdCnt)"
  proof -
    have "list_ex isTemplatesWrite (cycle E i) \<longleftrightarrow> filter isTemplatesWrite (cycle E i) \<noteq> []"
      by (simp add: filter_empty_conv list_ex_iff)
    then show ?thesis using f by simp
  qed
  have w: "world (Update E i) =
        (if \<not> updated \<or> 0 < cmdCnt then
           (case werr of Some e \<Rightarrow> w6 | None \<Rightarrow> final_world E updated cmdCnt (options i) w6)
         else sorted_world E cur (options i) w4)"
    using wo by (auto simp: final_world_live)
  from l f w show ?thesis by blast
qed

theorem C1_write_gating_witness:
  "let i = start (Some 0) (Some 1) in
     curConfig i = Some 1
     \<and> BuildFrontendGroup (effects (False, 0) None ([], None)) 1 (world i)
         = (None, [''BuildFrontendGroup''])
     \<and> BuildBackendMaps (effects (False, 0) None ([], None)) 1 [''BuildFrontendGroup'']
         = (None, [''BuildFrontendGroup'', ''BuildBackendMaps''])
     \<and> Equals (effects (False, 0) None ([], None)) 1 (oldConfig i)
           [''BuildFrontendGroup'', ''BuildBackendMaps'']
         = (False, [''BuildFrontendGroup'', ''BuildBackendMaps'', ''Equals''])
     \<and> dynUpdate (effects (False, 0) None ([], None)) (oldConfig i) 1
           [''BuildFrontendGroup'', ''BuildBackendMaps'', ''Equals'']
         = ((False, 0), [''BuildFrontendGroup'', ''BuildBackendMaps'', ''Equals'', ''update''])
     \<and> templatesWrite (effects (False, 0) None ([], None)) 1
           [''BuildFrontendGroup'', ''BuildBackendMaps'', ''Equals'', ''update'',
            ''SortEndpoints'', ''SortEndpoints'']
         = (None, [''BuildFrontendGroup'', ''BuildBackendMaps'', ''Equals'', ''update'',
                   ''SortEndpoints'', ''SortEndpoints'', ''Write''])
     \<and> filter isTemplatesWrite (cycle (effects (False, 0) None ([], None)) i)
         = [CallTemplatesWrite 1 None]
     \<and> world (Update (effects (False, 0) None ([], None)) i)
         = [''BuildFrontendGroup'', ''BuildBackendMaps'', ''Equals'', ''update'',
            ''SortEndpoints'', ''SortEndpoints'', ''Write'', ''/haproxy-reload.sh'']
     \<and> filter isTemplatesWrite (cycle (effects (False, 3) None ([], None)) i)
         = [CallTemplatesWrite 1 None]
     \<and> filter isTemplatesWrite (cycle (effects (True, 3) None ([], None)) i)
         = [CallTemplatesWrite 1 None]
     \<and> world (Update (effects (True, 3) None ([], None)) i)
         = [''BuildFrontendGroup'', ''BuildBackendMaps'', ''Equals'', ''update'',
            ''SortEndpoints'', ''SortEndpoints'', ''Write'', ''haproxy'']
     \<and> filter isTemplatesWrite (cycle (effects (True, 0) None ([], None)) i) = []
     \<and> world (Update (effects (True, 0) None ([], None)) i)
         = [''BuildFrontendGroup'', ''BuildBackendMaps'', ''Equals'', ''update'',
            ''SortEndpoints'', ''SortEndpoints'']"
proof -
  define i where "i = start (Some 0) (Some 1)"
  have gen: "filter isTemplatesWrite (cycle (effects (u, n) None ([], None)) i) =
        (if \<not> u \<or> 0 < n then [CallTemplatesWrite 1 None] else [])
    \<and> world (Update (effects (u, n) None ([], None)) i) =
        (if \<not> u \<or> 0 < n then
           final_world (effects (u, n) None ([], None)) u n (options i)
             [''BuildFrontendGroup'', ''BuildBackendMaps'', ''Equals'', ''update'',
              ''SortEndpoints'', ''SortEndpoints'', ''Write'']
         else [''BuildFrontendGroup'', ''BuildBackendMaps'', ''Equals'', ''update'',
               ''SortEndpoints'', ''SortEndpoints''])" for u n
    using C1_write_gating [of i 1 "effects (u, n) None ([], None)"
        "[''BuildFrontendGroup'']" "[''BuildFrontendGroup'', ''BuildBackendMaps'']"
        "[''BuildFrontendGroup'', ''BuildBackendMaps'', ''Equals'']" u n
        "[''BuildFrontendGroup'', ''BuildBackendMaps'', ''Equals'', ''update'']" None
        "[''BuildFrontendGroup'', ''BuildBackendMaps'', ''Equals'', ''update'',
          ''SortEndpoints'', ''SortEndpoints'', ''Write'']"]
    by (simp add: i_def effects_def start_def opts_def sorted_world_def)
  show ?thesis
    unfolding Let_def i_def [symmetric]
    using gen [of False 0] gen [of False 3] gen [of True 3] gen [of True 0]
    by (simp add: i_def effects_defs)
qed

text \<open>
  The four combinations of \<open>updated\<close> and \<open>cmdCnt\<close> on the scripted environment, with a
  write that succeeds.
\<close>

lemma write_gating_table:
  "list_ex isTemplatesWrite
     (cycle (scripted None None False (False, 0) None ([], None)) (inst (Some 0) (Some 1)))"
  "list_ex isTemplatesWrite
     (cycle (scripted None None False (False, 3) None ([], None)) (inst (Some 0) (Some 1)))"
  "list_ex isTemplatesWrite
     (cycle (scripted None None False (True, 3) None ([], None)) (inst (Some 0) (Some 1)))"
  "\<not> list_ex isTemplatesWrite
     (cycle (scripted None None False (True, 0) None ([], None)) (inst (Some 0) (Some 1)))"
  by (simp_all add: run_defs)

text \<open>
  C2, as amended. The claim says that \<open>reload\<close> is invoked if and only if the updater
  reported \<open>updated = false\<close>. The code returns before the reload when the write of the
  templates fails (lines 152-156), so the equivalence holds with the successful write
  added: \<open>reload\<close> is entered in a cycle if and only if the updater reported
  \<open>updated = false\<close> and the write of the current generation returned no error. It is
  never entered in a cycle in which the updater reported \<open>updated = true\<close>.
\<close>

theorem C2_reload_gating:
  "(CallReload \<in> set (cycle E i) \<longleftrightarrow>
      (\<exists>old cur n. CallDynUpdate old cur False n \<in> set (cycle E i)
                   \<and> CallTemplatesWrite cur None \<in> set (cycle E i)))
   \<and> (\<forall>old cur n. CallDynUpdate old cur True n \<in> set (cycle E i)
         \<longrightarrow> CallReload \<notin> set (cycle E i))"
proof (cases rule: cycle_cases [of i E])
  case (write_fail c u n srt e)
  then show ?thesis
    using sort_events_free [where srt=srt and cur=c] by auto
next
  case (written c u n srt j)
  then show ?thesis
    using sort_events_free [where srt=srt and cur=c] final_events_free [where E=E]
      final_events_reload [of E u n j] by auto
next
  case (live c n srt j)
  then show ?thesis
    using sort_events_free [where srt=srt and cur=c] final_events_free [where E=E]
      final_events_reload [of E True n j] by auto
qed auto

theorem C2_reload_gating_witness:
  "let E = scripted None None False (True, 1) None ([], None); i = inst (Some 0) (Some 1) in
     CallDynUpdate (Some 0) 1 True 1 \<in> set (cycle E i) \<and> CallReload \<notin> set (cycle E i)"
proof -
  define E where "E = scripted None None False (True, 1) None ([], None)"
  define i where "i = inst (Some 0) (Some 1)"
  have h: "CallDynUpdate (Some 0) 1 True 1 \<in> set (cycle E i)"
    by (simp add: E_def i_def run_defs)
  from C2_reload_gating [of E i] h have "CallReload \<notin> set (cycle E i)"
    by blast
  with h show ?thesis
    unfolding Let_def E_def i_def by blast
qed

text \<open>
  The claim as stated fails where the updater reports \<open>updated = false\<close> and the write
  fails: the updater's report is in the history and \<open>reload\<close> is not.
\<close>

theorem C2_reload_gating_counterexample:
  "CallDynUpdate None 1 False 0
     \<in> set (cycle (scripted None None False (False, 0) (Some (ErrorString ''disk full'')) ([], None))
              (inst None (Some 1)))
   \<and> CallReload
     \<notin> set (cycle (scripted None None False (False, 0) (Some (ErrorString ''disk full'')) ([], None))
              (inst None (Some 1)))"
  by (simp add: run_defs)

text \<open>
  C3. A cycle that starts with a current generation rotates exactly once, whatever path
  it takes: afterwards the old slot holds the generation that was current, the current
  slot is empty, and \<open>clearConfig\<close> was entered once.
\<close>

theorem C3_rotation_exactly_once:
  assumes "curConfig i = Some c"
  shows "oldConfig (Update E i) = Some c \<and> curConfig (Update E i) = None
    \<and> filter (\<lambda>e. e = CallClearConfig) (cycle E i) = [CallClearConfig]"
proof -
  have nf: "\<And>u n j. filter (\<lambda>e. e = CallClearConfig) (final_events E u n j) = []"
    using final_events_free(1) [of E] by (auto simp: filter_empty_conv)
  have ns: "\<And>srt cur. srt = [] \<or> (\<exists>bs. srt = CallBackends cur bs # map CallSortEndpoints bs)
      \<Longrightarrow> filter (\<lambda>e. e = CallClearConfig) srt = []"
    by (auto simp: filter_empty_conv)
  have "filter (\<lambda>e. e = CallClearConfig) (cycle E i) = [CallClearConfig]"
  proof (cases rule: cycle_cases [of i E])
    case absent
    then show ?thesis using assms by simp
  qed (simp_all add: nf ns)
  then show ?thesis using Update_slots [OF assms] by simp
qed

theorem C3_rotation_exactly_once_witness:
  "let E = scripted None None False (False, 0) None ([], Some (ErrorString ''exit status 1''));
       i = inst (Some 0) (Some 1) in
     curConfig i = Some 1 \<and> oldConfig (Update E i) = Some 1 \<and> curConfig (Update E i) = None
     \<and> filter (\<lambda>e. e = CallClearConfig) (cycle E i) = [CallClearConfig]"
proof -
  have h: "curConfig (inst (Some 0) (Some 1)) = Some 1"
    by (simp add: inst_def)
  show ?thesis
    unfolding Let_def using C3_rotation_exactly_once [OF h] h by blast
qed

text \<open>
  C4. If the write of the templates fails, the cycle ends with the timer checkpoint, the
  error line and the rotation, in this order; \<open>reload\<close> is not entered anywhere in the
  cycle, and the current generation has been rotated into the old slot.
\<close>

theorem C4_write_failure:
  assumes "CallTemplatesWrite cur (Some err) \<in> set (cycle E i)"
  shows "CallReload \<notin> set (cycle E i)
    \<and> (\<exists>pre. cycle E i = pre @ [CallTemplatesWrite cur (Some err), TimerTick ''writeTmpl'',
                                 LogError ''error writing configuration: %v'' [ArgError err],
                                 CallClearConfig])
    \<and> curConfig i = Some cur \<and> oldConfig (Update E i) = Some cur \<and> curConfig (Update E i) = None"
proof (cases rule: cycle_cases [of i E])
  case (write_fail c u n srt e)
  have "c = cur \<and> e = err"
    using assms write_fail sort_events_free [where srt=srt and cur=c] by auto
  then show ?thesis
    using write_fail sort_events_free [where srt=srt and cur=c] Update_slots [of i c E]
    by auto
next
  case (written c u n srt j)
  then show ?thesis
    using assms sort_events_free [where srt=srt and cur=c] final_events_free [where E=E] by auto
next
  case (live c n srt j)
  then show ?thesis
    using assms sort_events_free [where srt=srt and cur=c] final_events_free [where E=E] by auto
qed (use assms in auto)

theorem C4_write_failure_witness:
  "let E = scripted None None False (False, 0) (Some (ErrorString ''disk full'')) ([], None);
       i = inst None (Some 1) in
     CallTemplatesWrite 1 (Some (ErrorString ''disk full'')) \<in> set (cycle E i)
     \<and> CallReload \<notin> set (cycle E i)
     \<and> (\<exists>pre. cycle E i = pre @ [CallTemplatesWrite 1 (Some (ErrorString ''disk full'')),
                                  TimerTick ''writeTmpl'',
                                  LogError ''error writing configuration: %v''
                                    [ArgError (ErrorString ''disk full'')],
                                  CallClearConfig])
     \<and> curConfig i = Some 1 \<and> oldConfig (Update E i) = Some 1 \<and> curConfig (Update E i) = None"
proof -
  define E where
    "E = scripted None None False (False, 0) (Some (ErrorString ''disk full'')) ([], None)"
  define i where "i = inst None (Some 1)"
  have h: "CallTemplatesWrite 1 (Some (ErrorString ''disk full'')) \<in> set (cycle E i)"
    by (simp add: E_def i_def run_defs)
  from C4_write_failure [OF h] h show ?thesis
    unfolding Let_def E_def i_def by blast
qed

text \<open>
  C5. With an empty current slot \<open>Update\<close> logs one informational line and returns:
  both slots, the options and the outside state are as before, and the line is the only
  thing added to the history (no build, write, validation, reload or rotation).
\<close>

theorem C5_absent_current:
  assumes "curConfig i = None"
  shows "Update E i = i\<lparr>trace := trace i @ [LogInfo ''new configuration is empty'' []]\<rparr>
    \<and> cycle E i = [LogInfo ''new configuration is empty'' []]
    \<and> oldConfig (Update E i) = oldConfig i \<and> curConfig (Update E i) = None
    \<and> world (Update E i) = world i"
  using assms by (simp add: Update_absent cycle_def)

theorem C5_absent_current_witness:
  "let E = scripted None None False (False, 0) None ([], None); i = inst (Some 0) None in
     curConfig i = None
     \<and> Update E i = i\<lparr>trace := trace i @ [LogInfo ''new configuration is empty'' []]\<rparr>
     \<and> cycle E i = [LogInfo ''new configuration is empty'' []]
     \<and> oldConfig (Update E i) = Some 0 \<and> curConfig (Update E i) = None
     \<and> world (Update E i) = 2"
proof -
  have h: "curConfig (inst (Some 0) None) = None"
    by (simp add: inst_def)
  have o: "oldConfig (inst (Some 0) None) = Some 0" "world (inst (Some 0) None) = 2"
    by (simp_all add: inst_def)
  show ?thesis
    unfolding Let_def
    using C5_absent_current [OF h, of "scripted None None False (False, 0) None ([], None)"] h o
    by simp
qed



text \<open>
  C7. When the updater reported \<open>updated = true\<close> with \<open>cmdCnt > 0\<close>, validation is
  enabled and the validation command fails, the cycle ends with: the rotation, the entry
  into \<open>check\<close>, the failed command, the error line carrying the error of \<open>check\<close>, the
  timer checkpoint, and the success line with the command count. \<open>reload\<close> is not
  entered, and the slots are rotated.
\<close>

theorem C7_validation_advisory:
  assumes "CallDynUpdate old cur True n \<in> set (cycle E i)"
    and "0 < n"
    and "ValidateConfig (options i)"
    and "CallExec cmd args out (Some xerr) \<in> set (cycle E i)"
  shows "(\<exists>pre. cycle E i = pre @
            [CallClearConfig, CallCheck, CallExec cmd args out (Some xerr),
             LogError ''error validating config file:\<newline>%v'' [ArgError (Errorf out)],
             TimerTick ''validate'',
             LogInfo ''HAProxy updated without needing to reload. Commands sent: %d'' [ArgInt n]]
          \<and> CallReload \<notin> set pre)
    \<and> CallReload \<notin> set (cycle E i)
    \<and> oldConfig (Update E i) = Some cur \<and> curConfig (Update E i) = None"
proof (cases rule: cycle_cases [of i E])
  case (write_fail c u m srt e)
  then show ?thesis
    using assms(4) sort_events_exec [where srt=srt and cur=c] by auto
next
  case (written c u m srt j)
  have um: "u = True \<and> m = n \<and> c = cur"
    using assms(1) written sort_events_free [where srt=srt and cur=c]
      final_events_free [where E=E] by auto
  have ex: "CallExec cmd args out (Some xerr) \<in> set (final_events E True n j)"
    using assms(4) written um sort_events_exec [where srt=srt and cur=c] by auto
  have fe: "final_events E True n j =
     [CallCheck, CallExec cmd args out (Some xerr),
      LogError ''error validating config file:\<newline>%v'' [ArgError (Errorf out)],
      TimerTick ''validate'',
      LogInfo ''HAProxy updated without needing to reload. Commands sent: %d'' [ArgInt n]]"
    using final_events_failed_check [OF assms(2) _ ex] assms(3) written(4) by simp
  have cy: "cycle E i =
     ([CallBuildFrontendGroup cur None, CallBuildBackendMaps cur None,
       CallEquals cur (oldConfig i) False, CallDynUpdate (oldConfig i) cur True n]
      @ srt @ [CallTemplatesWrite cur None, TimerTick ''writeTmpl'']) @
     [CallClearConfig, CallCheck, CallExec cmd args out (Some xerr),
      LogError ''error validating config file:\<newline>%v'' [ArgError (Errorf out)],
      TimerTick ''validate'',
      LogInfo ''HAProxy updated without needing to reload. Commands sent: %d'' [ArgInt n]]"
    using written(5) um fe by simp
  have nr: "CallReload \<notin> set srt"
    using sort_events_free [where srt=srt and cur=c] written(3) by simp
  have pre: "CallReload \<notin> set ([CallBuildFrontendGroup cur None, CallBuildBackendMaps cur None,
       CallEquals cur (oldConfig i) False, CallDynUpdate (oldConfig i) cur True n]
      @ srt @ [CallTemplatesWrite cur None, TimerTick ''writeTmpl''])"
    using nr by simp
  have all: "CallReload \<notin> set (cycle E i)"
    unfolding cy using nr by simp
  show ?thesis
    using cy pre all Update_slots [of i c E] written(1) um by blast
next
  case (live c m srt j)
  then show ?thesis
    using assms(1,2) sort_events_free [where srt=srt and cur=c] final_events_free [where E=E]
    by auto
qed (use assms(1) in auto)

theorem C7_validation_advisory_witness:
  "let E = scripted None None False (True, 1) None
             (''[ALERT] config invalid'', Some (ErrorString ''exit status 1''));
       i = inst (Some 0) (Some 1) in
     CallDynUpdate (Some 0) 1 True 1 \<in> set (cycle E i)
     \<and> ValidateConfig (options i)
     \<and> CallExec ''haproxy'' [''-c'', ''-f'', ''/etc/haproxy/haproxy.cfg''] ''[ALERT] config invalid''
          (Some (ErrorString ''exit status 1'')) \<in> set (cycle E i)
     \<and> (\<exists>pre. cycle E i = pre @
            [CallClearConfig, CallCheck,
             CallExec ''haproxy'' [''-c'', ''-f'', ''/etc/haproxy/haproxy.cfg'']
               ''[ALERT] config invalid'' (Some (ErrorString ''exit status 1'')),
             LogError ''error validating config file:\<newline>%v''
               [ArgError (Errorf ''[ALERT] config invalid'')],
             TimerTick ''validate'',
             LogInfo ''HAProxy updated without needing to reload. Commands sent: %d'' [ArgInt 1]])
     \<and> CallReload \<notin> set (cycle E i)
     \<and> oldConfig (Update E i) = Some 1 \<and> curConfig (Update E i) = None"
proof -
  define E where "E = scripted None None False (True, 1) None
             (''[ALERT] config invalid'', Some (ErrorString ''exit status 1''))"
  define i where "i = inst (Some 0) (Some 1)"
  have h1: "CallDynUpdate (Some 0) 1 True 1 \<in> set (cycle E i)"
    by (simp add: E_def i_def run_defs)
  have h2: "(0::int) < 1" by simp
  have h3: "ValidateConfig (options i)"
    by (simp add: i_def inst_def opts_def)
  have h4: "CallExec ''haproxy'' [''-c'', ''-f'', ''/etc/haproxy/haproxy.cfg'']
      ''[ALERT] config invalid'' (Some (ErrorString ''exit status 1'')) \<in> set (cycle E i)"
    by (simp add: E_def i_def run_defs)
  from C7_validation_advisory [OF h1 h2 h3 h4] h1 h3 h4 show ?thesis
    unfolding Let_def E_def i_def by blast
qed

text \<open>
  C8. The claim: \<open>check\<close> returns success without running a command when no validation
  command is configured; otherwise it runs the command on the configuration file,
  returns success when the command exits with status zero, and otherwise returns an
  error whose message is the combined output, verbatim. The first three parts are
  \<open>check_no_command\<close> and \<open>check_exit\<close> above. The last one holds for an output without
  a percent sign (\<open>check_nonzero_exit_plain\<close>) and fails with one: line 189 passes the
  output to \<open>fmt.Errorf\<close> as the format string, so every \<open>%\<close> in it starts a verb that
  has no operand. Below, the output ends in \<open>%zz\<close> and the message ends in
  \<open>%!z(MISSING)z\<close>.
\<close>

theorem C8_check_error_not_verbatim:
  "fst (check (scripted None None False (True, 1) None
                 (''[ALERT] parsing [/etc/haproxy/haproxy.cfg:12] : failed to parse log-format : %zz'',
                  Some (ErrorString ''exit status 1'')))
              (inst (Some 0) None))
   = Some (ErrorString
       ''[ALERT] parsing [/etc/haproxy/haproxy.cfg:12] : failed to parse log-format : %!z(MISSING)z'')"
  by (simp add: check_def call_def emit_def scripted_def inst_def opts_def fmt_defs doPrintf.simps)

text \<open>
  C9. Take a cycle that reaches the dynamic updater: a current generation, both build
  phases without error, \<open>Equals\<close> false, and the updater returning \<open>updated\<close> and
  \<open>cmdCnt\<close>. The updater is called once. \<open>templates.Write\<close> is called at most once,
  for the current generation and on the outside state that the updater (and the sort)
  left, and no call of the updater follows it. \<open>reload\<close> is entered exactly when
  \<open>updated\<close> is false and that call of \<open>templates.Write\<close> returned no error; no write
  follows it, and its command runs on the outside state that the write returned.
\<close>

theorem C9_order:
  assumes "curConfig i = Some cur"
    and "BuildFrontendGroup E cur (world i) = (None, w1)"
    and "BuildBackendMaps E cur w1 = (None, w2)"
    and "Equals E cur (oldConfig i) w2 = (False, w3)"
    and "dynUpdate E (oldConfig i) cur w3 = ((updated, cmdCnt), w4)"
    and "templatesWrite E cur (sorted_world E cur (options i) w4) = (werr, w6)"
  shows "filter isDynUpdate (cycle E i) = [CallDynUpdate (oldConfig i) cur updated cmdCnt]
    \<and> filter isTemplatesWrite (cycle E i) =
        (if \<not> updated \<or> 0 < cmdCnt then [CallTemplatesWrite cur werr] else [])
    \<and> filter isReload (cycle E i) = (if \<not> updated \<and> werr = None then [CallReload] else [])
    \<and> precedes isDynUpdate isTemplatesWrite (cycle E i)
    \<and> precedes isTemplatesWrite isReload (cycle E i)
    \<and> world (Update E i) =
        (if \<not> updated \<or> 0 < cmdCnt then
           (case werr of Some e \<Rightarrow> w6 | None \<Rightarrow> final_world E updated cmdCnt (options i) w6)
         else sorted_world E cur (options i) w4)"
proof -
  obtain j where cy: "cycle E i =
         [CallBuildFrontendGroup cur None, CallBuildBackendMaps cur None,
          CallEquals cur (oldConfig i) False, CallDynUpdate (oldConfig i) cur updated cmdCnt]
         @ sort_events E cur (options i) w4 @
           (if \<not> updated \<or> 0 < cmdCnt then
              CallTemplatesWrite cur werr # TimerTick ''writeTmpl'' #
                (case werr of
                   Some e \<Rightarrow> [LogError ''error writing configuration: %v'' [ArgError e], CallClearConfig]
                 | None \<Rightarrow> CallClearConfig # final_events E updated cmdCnt j)
            else CallClearConfig # final_events E updated cmdCnt j)"
    and wo: "world (Update E i) =
         (if \<not> updated \<or> 0 < cmdCnt then
            (case werr of Some e \<Rightarrow> w6 | None \<Rightarrow> final_world E updated cmdCnt (options i) w6)
          else final_world E updated cmdCnt (options i) (sorted_world E cur (options i) w4))"
    using cycle_run [OF assms] by blast
  have d: "filter isDynUpdate (cycle E i) = [CallDynUpdate (oldConfig i) cur updated cmdCnt]"
    unfolding cy
    by (simp add: sort_events_filters final_events_filters split: option.split)
  have f: "filter isTemplatesWrite (cycle E i) =
        (if \<not> updated \<or> 0 < cmdCnt then [CallTemplatesWrite cur werr] else [])"
    unfolding cy
    by (simp add: sort_events_filters final_events_filters split: option.split)
  have r: "filter isReload (cycle E i) = (if \<not> updated \<and> werr = None then [CallReload] else [])"
    unfolding cy
    by (auto simp: sort_events_filters final_events_filters split: option.split)
  have p1: "precedes isDynUpdate isTemplatesWrite (cycle E i)"
    unfolding cy
    by (simp add: precedes_append sort_events_filters final_events_kinds precedes_no_first
        split: option.split)
  have p2: "precedes isTemplatesWrite isReload (cycle E i)"
    unfolding cy
    by (simp add: precedes_append sort_events_filters final_events_kinds precedes_no_first
        split: option.split)
  have w: "world (Update E i) =
        (if \<not> updated \<or> 0 < cmdCnt then
           (case werr of Some e \<Rightarrow> w6 | None \<Rightarrow> final_world E updated cmdCnt (options i) w6)
         else sorted_world E cur (options i) w4)"
    using wo by (auto simp: final_world_live)
  from d f r p1 p2 w show ?thesis by blast
qed

theorem C9_order_witness:
  "let i = start None (Some 1) in
     curConfig i = Some 1
     \<and> dynUpdate (effects (False, 0) None ([], None)) (oldConfig i) 1
           [''BuildFrontendGroup'', ''BuildBackendMaps'', ''Equals'']
         = ((False, 0), [''BuildFrontendGroup'', ''BuildBackendMaps'', ''Equals'', ''update''])
     \<and> templatesWrite (effects (False, 0) None ([], None)) 1
           [''BuildFrontendGroup'', ''BuildBackendMaps'', ''Equals'', ''update'',
            ''SortEndpoints'', ''SortEndpoints'']
         = (None, [''BuildFrontendGroup'', ''BuildBackendMaps'', ''Equals'', ''update'',
                   ''SortEndpoints'', ''SortEndpoints'', ''Write''])
     \<and> filter isDynUpdate (cycle (effects (False, 0) None ([], None)) i)
         = [CallDynUpdate None 1 False 0]
     \<and> filter isTemplatesWrite (cycle (effects (False, 0) None ([], None)) i)
         = [CallTemplatesWrite 1 None]
     \<and> filter isReload (cycle (effects (False, 0) None ([], None)) i) = [CallReload]
     \<and> precedes isDynUpdate isTemplatesWrite (cycle (effects (False, 0) None ([], None)) i)
     \<and> precedes isTemplatesWrite isReload (cycle (effects (False, 0) None ([], None)) i)
     \<and> world (Update (effects (False, 0) None ([], None)) i)
         = [''BuildFrontendGroup'', ''BuildBackendMaps'', ''Equals'', ''update'',
            ''SortEndpoints'', ''SortEndpoints'', ''Write'', ''/haproxy-reload.sh'']
     \<and> filter isTemplatesWrite
           (cycle (effects (False, 0) (Some (ErrorString ''disk full'')) ([], None)) i)
         = [CallTemplatesWrite 1 (Some (ErrorString ''disk full''))]
     \<and> filter isReload
           (cycle (effects (False, 0) (Some (ErrorString ''disk full'')) ([], None)) i) = []
     \<and> world (Update (effects (False, 0) (Some (ErrorString ''disk full'')) ([], None)) i)
         = [''BuildFrontendGroup'', ''BuildBackendMaps'', ''Equals'', ''update'',
            ''SortEndpoints'', ''SortEndpoints'', ''Write'']"
proof -
  define i where "i = start None (Some 1)"
  have gen: "filter isDynUpdate (cycle (effects (False, 0) wr ([], None)) i)
        = [CallDynUpdate None 1 False 0]
    \<and> filter isTemplatesWrite (cycle (effects (False, 0) wr ([], None)) i)
        = [CallTemplatesWrite 1 wr]
    \<and> filter isReload (cycle (effects (False, 0) wr ([], None)) i)
        = (if wr = None then [CallReload] else [])
    \<and> precedes isDynUpdate isTemplatesWrite (cycle (effects (False, 0) wr ([], None)) i)
    \<and> precedes isTemplatesWrite isReload (cycle (effects (False, 0) wr ([], None)) i)
    \<and> world (Update (effects (False, 0) wr ([], None)) i) =
        (case wr of
           Some e \<Rightarrow> [''BuildFrontendGroup'', ''BuildBackendMaps'', ''Equals'', ''update'',
                      ''SortEndpoints'', ''SortEndpoints'', ''Write'']
         | None \<Rightarrow> final_world (effects (False, 0) wr ([], None)) False 0 (options i)
             [''BuildFrontendGroup'', ''BuildBackendMaps'', ''Equals'', ''update'',
              ''SortEndpoints'', ''SortEndpoints'', ''Write''])" for wr
    using C9_order [of i 1 "effects (False, 0) wr ([], None)"
        "[''BuildFrontendGroup'']" "[''BuildFrontendGroup'', ''BuildBackendMaps'']"
        "[''BuildFrontendGroup'', ''BuildBackendMaps'', ''Equals'']" False 0
        "[''BuildFrontendGroup'', ''BuildBackendMaps'', ''Equals'', ''update'']" wr
        "[''BuildFrontendGroup'', ''BuildBackendMaps'', ''Equals'', ''update'',
          ''SortEndpoints'', ''SortEndpoints'', ''Write'']"]
    by (simp add: i_def effects_def start_def opts_def sorted_world_def)
  show ?thesis
    unfolding Let_def i_def [symmetric]
    using gen [of None] gen [of "Some (ErrorString ''disk full'')"]
    by (simp add: i_def effects_defs)
qed

text \<open>
  C10. \<open>Config()\<close> creates the current generation lazily. With an empty current slot
  it calls the constructor \<open>createConfig\<close>, installs the result as current and returns
  it; with a current generation it returns that one and changes nothing, so a second
  call right after the first returns the same reference and leaves the state as it is.
  After an \<open>Update\<close> that started with a current generation (whatever its outcome) the
  current slot is empty, so the next \<open>Config()\<close> calls the constructor again and returns
  and installs what it constructs.
\<close>

theorem C10_Config_lazy:
  "(curConfig i = None \<longrightarrow>
      Config E i =
        (fst (createConfig E (mapsDir i) (world i)),
         i\<lparr>world := snd (createConfig E (mapsDir i) (world i)),
           trace := trace i @ [CallCreateConfig (mapsDir i) (fst (createConfig E (mapsDir i) (world i)))],
           curConfig := Some (fst (createConfig E (mapsDir i) (world i)))\<rparr>))
   \<and> (\<forall>c. curConfig i = Some c \<longrightarrow> Config E i = (c, i))
   \<and> Config E (snd (Config E i)) = Config E i
   \<and> (curConfig i \<noteq> None \<longrightarrow>
        curConfig (Update E i) = None
        \<and> fst (Config E (Update E i))
            = fst (createConfig E (mapsDir i) (world (Update E i)))
        \<and> curConfig (snd (Config E (Update E i)))
            = Some (fst (createConfig E (mapsDir i) (world (Update E i))))
        \<and> trace (snd (Config E (Update E i)))
            = trace (Update E i)
              @ [CallCreateConfig (mapsDir i) (fst (createConfig E (mapsDir i) (world (Update E i))))])"
proof -
  have a: "curConfig i = None \<Longrightarrow>
      Config E i =
        (fst (createConfig E (mapsDir i) (world i)),
         i\<lparr>world := snd (createConfig E (mapsDir i) (world i)),
           trace := trace i @ [CallCreateConfig (mapsDir i) (fst (createConfig E (mapsDir i) (world i)))],
           curConfig := Some (fst (createConfig E (mapsDir i) (world i)))\<rparr>)" for i :: "('a, 'b, 'c) instance_state"
    by (simp add: Config_def call_def emit_def split_beta)
  have b: "curConfig i = Some c \<Longrightarrow> Config E i = (c, i)" for c and i :: "('a, 'b, 'c) instance_state"
    by (simp add: Config_def)
  have c: "Config E (snd (Config E i)) = Config E i"
  proof (cases "curConfig i")
    case None
    then show ?thesis by (simp add: a b)
  next
    case (Some c)
    then show ?thesis by (simp add: b)
  qed
  have d: "curConfig i \<noteq> None \<Longrightarrow> curConfig (Update E i) = None"
    using Update_slots [of i _ E] by auto
  show ?thesis
    using a [of i] b [of i] c d a [of "Update E i"] by auto
qed

theorem C10_Config_lazy_witness:
  "let E = scripted None None False (False, 0) None ([], None) in
     fst (Config E (inst (Some 0) None)) = 2
     \<and> curConfig (snd (Config E (inst (Some 0) None))) = Some 2
     \<and> fst (Config E (snd (Config E (inst (Some 0) None)))) = 2
     \<and> Config E (inst (Some 0) (Some 1)) = (1, inst (Some 0) (Some 1))
     \<and> curConfig (Update E (inst (Some 0) (Some 1))) = None
     \<and> fst (Config E (Update E (inst (Some 0) (Some 1)))) = 2"
proof -
  define E where "E = scripted None None False (False, 0) None ([], None)"
  have n: "curConfig (inst (Some 0) None) = None"
    and s: "curConfig (inst (Some 0) (Some 1)) = Some 1"
    and s': "curConfig (inst (Some 0) (Some 1)) \<noteq> None"
    by (simp_all add: inst_def)
  have w: "world (Update E (inst (Some 0) (Some 1))) = 2"
    by (simp add: E_def run_defs)
  have cc: "\<And>d w. createConfig E d w = (w, Suc w)"
    by (simp add: E_def scripted_def)
  have iw: "world (inst (Some 0) None) = 2"
    by (simp add: inst_def)
  from C10_Config_lazy [of "inst (Some 0) None" E] C10_Config_lazy [of "inst (Some 0) (Some 1)" E]
    n s s' w cc iw
  show ?thesis
    unfolding Let_def E_def [symmetric] by (auto simp: numeral_2_eq_2)
qed

end
